theory Spec2Isabelle
  imports Main
begin

section \<open>Data model\<close>

text \<open>
  The cache layer of \<^verbatim>\<open>be/src/dfs_cache\<close>: the registry
  (\<^verbatim>\<open>cache-layer-registry.cc\<close>) and the file system adaptors with their connection pool
  (\<^verbatim>\<open>filesystem-descriptor-bound.cc\<close>).

  C pointers (\<^verbatim>\<open>fsBridge\<close>, \<^verbatim>\<open>dfsFile\<close>, buffers) are machine values; the null
  pointer is the value 0.
\<close>

type_synonym ptr = int
type_synonym fsBridge = ptr
type_synonym dfsFile = ptr

definition NULL :: ptr where
  "NULL = 0"

text \<open>The enumeration \<^verbatim>\<open>DFS_TYPE\<close>, with the members that \<^verbatim>\<open>operator<<\<close> lists.\<close>

datatype DFS_TYPE = hdfs | s3n | s3a | local | tachyon | DEFAULT_FROM_CONFIG | OTHER | NON_SPECIFIED

text \<open>
  \<^verbatim>\<open>FileSystemDescriptor\<close>. The sources read and write \<^verbatim>\<open>dfs_type\<close>, \<^verbatim>\<open>host\<close> and
  \<^verbatim>\<open>port\<close>; the three trailing fields follow the aggregate initialiser of the test fixture,
  \<^verbatim>\<open>{DFS_TYPE::OTHER, "localhost", 8080, "", "", true}\<close>.
\<close>

record FileSystemDescriptor =
  dfs_type :: DFS_TYPE
  host :: string
  port :: int
  credentials :: string
  password :: string
  valid :: bool

text \<open>
  Modelled from the spec: the declaration of \<^verbatim>\<open>dfsConnection\<close> and of its state enumeration
  is in \<^verbatim>\<open>filesystem-descriptor-bound.hpp\<close>, which is not among the sources. The three
  states are the ones the spec gives (Uninitialized, FreeReady, Busy) under the names that
  \<^verbatim>\<open>getFreeConnection\<close> uses.
\<close>

datatype ConnectionState = NON_INITIALIZED | FREE_INITIALIZED | BUSY_OK

record dfsConnection =
  connection :: fsBridge
  state :: ConnectionState

text \<open>
  A lease (\<^verbatim>\<open>raiiDfsConnection\<close>) holds a shared pointer to one pooled
  \<^verbatim>\<open>dfsConnection\<close>, or a null shared pointer when no connection could be obtained.
  The pool \<^verbatim>\<open>m_connections\<close> is the store of the connection objects, and a non-null
  shared pointer is the position of its object in that store (slots are only ever appended).
\<close>

type_synonym dfsConnectionPtr = "nat option"
type_synonym raiiDfsConnection = dfsConnectionPtr

text \<open>
  Dereferencing a shared pointer. \<^verbatim>\<open>conn.connection()->connection\<close> on an empty lease
  dereferences a null \<^verbatim>\<open>boost::shared_ptr\<close>: the program faults there (an assertion
  failure or an invalid read), it does not return a value.
\<close>

datatype fault = NullPointerDereference | DanglingPointer

definition deref :: "dfsConnection list \<Rightarrow> dfsConnectionPtr \<Rightarrow> fault + dfsConnection" where
  "deref pool p =
     (case p of
        None \<Rightarrow> Inl NullPointerDereference
      | Some i \<Rightarrow> if i < length pool then Inr (pool ! i) else Inl DanglingPointer)"

section \<open>The native binding\<close>

text \<open>
  The calls that set up a builder (\<^verbatim>\<open>_dfsBuilderSetHost\<close> and the like), in the order
  they were made on a new builder.
\<close>

datatype builder_call =
    SetHostAndFilesystemType string DFS_TYPE
  | SetHost "string option"
  | SetPort int

type_synonym fsBuilder = "builder_call list"

text \<open>
  A call that leaves the adaptor: the name of the C function (a function of
  \<^verbatim>\<open>hadoop-fs-adaptive.h\<close>, or the allocator) and the values of its arguments, in order.
\<close>

datatype arg = P ptr | I int | S string | Bld fsBuilder

datatype native_call = Call string "arg list"

text \<open>
  The binding is a parameter of the model. It acts on a world \<open>'w\<close> that the adaptor cannot
  see: \<open>dfs_call\<close> gives the value a call returns (an integer or a pointer) and the
  world after it. The resolver also fills the caller's \<^verbatim>\<open>host\<close> buffer
  and the \<^verbatim>\<open>port\<close> and \<^verbatim>\<open>dfs_type\<close> it is given pointers to, so it takes their
  contents at the call and returns their contents at return together with its status.
\<close>

record 'w native =
  dfs_call :: "native_call \<Rightarrow> 'w \<Rightarrow> int \<times> 'w"
  dfsGetDefaultFsHostPortType ::
    "fsBuilder \<Rightarrow> int \<Rightarrow> DFS_TYPE \<Rightarrow> 'w \<Rightarrow> (int \<times> string \<times> int \<times> DFS_TYPE) \<times> 'w"

text \<open>The world together with the log of the native calls made so far, oldest first.\<close>

record 'w sys =
  world :: 'w
  calls :: "native_call list"

definition invoke :: "'w native \<Rightarrow> native_call \<Rightarrow> 'w sys \<Rightarrow> int \<times> 'w sys" where
  "invoke nb c s =
     (let (r, w') = dfs_call nb c (world s)
      in (r, \<lparr>world = w', calls = calls s @ [c]\<rparr>))"

section \<open>Pass-through operations of \<^verbatim>\<open>FileSystemDescriptorBound\<close>\<close>

text \<open>
  Each operation is \<^verbatim>\<open>return _dfsX(conn.connection()->connection, ...)\<close>: it dereferences
  the lease, makes the one native call with the handle found there and returns what the call
  returned. The pool is passed along as the store the lease points into. When the
  dereference faults the operation ends there: the result is the fault and the system as it
  was, no native call having been made.
\<close>

definition fileOpen ::
  "'w native \<Rightarrow> dfsConnection list \<Rightarrow> raiiDfsConnection \<Rightarrow> string \<Rightarrow> int \<Rightarrow> int \<Rightarrow> int \<Rightarrow> int \<Rightarrow> 'w sys \<Rightarrow> (fault \<times> 'w sys) + (int \<times> 'w sys)" where
  "fileOpen nb pool conn path flags bufferSize replication blocksize s =
     (case deref pool conn of
        Inl f \<Rightarrow> Inl (f, s)
      | Inr c \<Rightarrow> Inr (invoke nb (Call ''_dfsOpenFile'' [P (connection c), S path, I flags, I bufferSize, I replication, I blocksize]) s))"

definition fileClose ::
  "'w native \<Rightarrow> dfsConnection list \<Rightarrow> raiiDfsConnection \<Rightarrow> dfsFile \<Rightarrow> 'w sys \<Rightarrow> (fault \<times> 'w sys) + (int \<times> 'w sys)" where
  "fileClose nb pool conn file s =
     (case deref pool conn of
        Inl f \<Rightarrow> Inl (f, s)
      | Inr c \<Rightarrow> Inr (invoke nb (Call ''_dfsCloseFile'' [P (connection c), P file]) s))"

definition fileTell ::
  "'w native \<Rightarrow> dfsConnection list \<Rightarrow> raiiDfsConnection \<Rightarrow> dfsFile \<Rightarrow> 'w sys \<Rightarrow> (fault \<times> 'w sys) + (int \<times> 'w sys)" where
  "fileTell nb pool conn file s =
     (case deref pool conn of
        Inl f \<Rightarrow> Inl (f, s)
      | Inr c \<Rightarrow> Inr (invoke nb (Call ''_dfsTell'' [P (connection c), P file]) s))"

definition fileSeek ::
  "'w native \<Rightarrow> dfsConnection list \<Rightarrow> raiiDfsConnection \<Rightarrow> dfsFile \<Rightarrow> int \<Rightarrow> 'w sys \<Rightarrow> (fault \<times> 'w sys) + (int \<times> 'w sys)" where
  "fileSeek nb pool conn file desiredPos s =
     (case deref pool conn of
        Inl f \<Rightarrow> Inl (f, s)
      | Inr c \<Rightarrow> Inr (invoke nb (Call ''_dfsSeek'' [P (connection c), P file, I desiredPos]) s))"

definition fileRead ::
  "'w native \<Rightarrow> dfsConnection list \<Rightarrow> raiiDfsConnection \<Rightarrow> dfsFile \<Rightarrow> ptr \<Rightarrow> int \<Rightarrow> 'w sys \<Rightarrow> (fault \<times> 'w sys) + (int \<times> 'w sys)" where
  "fileRead nb pool conn file buffer len s =
     (case deref pool conn of
        Inl f \<Rightarrow> Inl (f, s)
      | Inr c \<Rightarrow> Inr (invoke nb (Call ''_dfsRead'' [P (connection c), P file, P buffer, I len]) s))"

definition filePread ::
  "'w native \<Rightarrow> dfsConnection list \<Rightarrow> raiiDfsConnection \<Rightarrow> dfsFile \<Rightarrow> int \<Rightarrow> ptr \<Rightarrow> int \<Rightarrow> 'w sys \<Rightarrow> (fault \<times> 'w sys) + (int \<times> 'w sys)" where
  "filePread nb pool conn file position buffer len s =
     (case deref pool conn of
        Inl f \<Rightarrow> Inl (f, s)
      | Inr c \<Rightarrow> Inr (invoke nb (Call ''_dfsPread'' [P (connection c), P file, I position, P buffer, I len]) s))"

definition fileWrite ::
  "'w native \<Rightarrow> dfsConnection list \<Rightarrow> raiiDfsConnection \<Rightarrow> dfsFile \<Rightarrow> ptr \<Rightarrow> int \<Rightarrow> 'w sys \<Rightarrow> (fault \<times> 'w sys) + (int \<times> 'w sys)" where
  "fileWrite nb pool conn file buffer len s =
     (case deref pool conn of
        Inl f \<Rightarrow> Inl (f, s)
      | Inr c \<Rightarrow> Inr (invoke nb (Call ''_dfsWrite'' [P (connection c), P file, P buffer, I len]) s))"

definition fileFlush ::
  "'w native \<Rightarrow> dfsConnection list \<Rightarrow> raiiDfsConnection \<Rightarrow> dfsFile \<Rightarrow> 'w sys \<Rightarrow> (fault \<times> 'w sys) + (int \<times> 'w sys)" where
  "fileFlush nb pool conn file s =
     (case deref pool conn of
        Inl f \<Rightarrow> Inl (f, s)
      | Inr c \<Rightarrow> Inr (invoke nb (Call ''_dfsFlush'' [P (connection c), P file]) s))"

definition fileRename ::
  "'w native \<Rightarrow> dfsConnection list \<Rightarrow> raiiDfsConnection \<Rightarrow> string \<Rightarrow> string \<Rightarrow> 'w sys \<Rightarrow> (fault \<times> 'w sys) + (int \<times> 'w sys)" where
  "fileRename nb pool conn oldPath newPath s =
     (case deref pool conn of
        Inl f \<Rightarrow> Inl (f, s)
      | Inr c \<Rightarrow> Inr (invoke nb (Call ''_dfsRename'' [P (connection c), S oldPath, S newPath]) s))"

definition pathDelete ::
  "'w native \<Rightarrow> dfsConnection list \<Rightarrow> raiiDfsConnection \<Rightarrow> string \<Rightarrow> int \<Rightarrow> 'w sys \<Rightarrow> (fault \<times> 'w sys) + (int \<times> 'w sys)" where
  "pathDelete nb pool conn path recursive s =
     (case deref pool conn of
        Inl f \<Rightarrow> Inl (f, s)
      | Inr c \<Rightarrow> Inr (invoke nb (Call ''_dfsDelete'' [P (connection c), S path, I recursive]) s))"

definition fileInfo ::
  "'w native \<Rightarrow> dfsConnection list \<Rightarrow> raiiDfsConnection \<Rightarrow> string \<Rightarrow> 'w sys \<Rightarrow> (fault \<times> 'w sys) + (int \<times> 'w sys)" where
  "fileInfo nb pool conn path s =
     (case deref pool conn of
        Inl f \<Rightarrow> Inl (f, s)
      | Inr c \<Rightarrow> Inr (invoke nb (Call ''_dfsGetPathInfo'' [P (connection c), S path]) s))"

definition listDirectory ::
  "'w native \<Rightarrow> dfsConnection list \<Rightarrow> raiiDfsConnection \<Rightarrow> string \<Rightarrow> ptr \<Rightarrow> 'w sys \<Rightarrow> (fault \<times> 'w sys) + (int \<times> 'w sys)" where
  "listDirectory nb pool conn path numEntries s =
     (case deref pool conn of
        Inl f \<Rightarrow> Inl (f, s)
      | Inr c \<Rightarrow> Inr (invoke nb (Call ''_dfsListDirectory'' [P (connection c), S path, P numEntries]) s))"

definition createDirectory ::
  "'w native \<Rightarrow> dfsConnection list \<Rightarrow> raiiDfsConnection \<Rightarrow> string \<Rightarrow> 'w sys \<Rightarrow> (fault \<times> 'w sys) + (int \<times> 'w sys)" where
  "createDirectory nb pool conn path s =
     (case deref pool conn of
        Inl f \<Rightarrow> Inl (f, s)
      | Inr c \<Rightarrow> Inr (invoke nb (Call ''_dfsCreateDirectory'' [P (connection c), S path]) s))"

definition getDefaultBlockSize ::
  "'w native \<Rightarrow> dfsConnection list \<Rightarrow> raiiDfsConnection \<Rightarrow> 'w sys \<Rightarrow> (fault \<times> 'w sys) + (int \<times> 'w sys)" where
  "getDefaultBlockSize nb pool conn s =
     (case deref pool conn of
        Inl f \<Rightarrow> Inl (f, s)
      | Inr c \<Rightarrow> Inr (invoke nb (Call ''_dfsGetDefaultBlockSize'' [P (connection c)]) s))"

definition fileAvailable ::
  "'w native \<Rightarrow> dfsConnection list \<Rightarrow> raiiDfsConnection \<Rightarrow> dfsFile \<Rightarrow> 'w sys \<Rightarrow> (fault \<times> 'w sys) + (int \<times> 'w sys)" where
  "fileAvailable nb pool conn file s =
     (case deref pool conn of
        Inl f \<Rightarrow> Inl (f, s)
      | Inr c \<Rightarrow> Inr (invoke nb (Call ''_dfsAvailable'' [P (connection c), P file]) s))"

definition fsSetReplication ::
  "'w native \<Rightarrow> dfsConnection list \<Rightarrow> raiiDfsConnection \<Rightarrow> string \<Rightarrow> int \<Rightarrow> 'w sys \<Rightarrow> (fault \<times> 'w sys) + (int \<times> 'w sys)" where
  "fsSetReplication nb pool conn path replication s =
     (case deref pool conn of
        Inl f \<Rightarrow> Inl (f, s)
      | Inr c \<Rightarrow> Inr (invoke nb (Call ''_dfsSetReplication'' [P (connection c), S path, I replication]) s))"

definition fsGetCapacity ::
  "'w native \<Rightarrow> dfsConnection list \<Rightarrow> raiiDfsConnection \<Rightarrow> 'w sys \<Rightarrow> (fault \<times> 'w sys) + (int \<times> 'w sys)" where
  "fsGetCapacity nb pool conn s =
     (case deref pool conn of
        Inl f \<Rightarrow> Inl (f, s)
      | Inr c \<Rightarrow> Inr (invoke nb (Call ''_dfsGetCapacity'' [P (connection c)]) s))"

definition fsGetUsed ::
  "'w native \<Rightarrow> dfsConnection list \<Rightarrow> raiiDfsConnection \<Rightarrow> 'w sys \<Rightarrow> (fault \<times> 'w sys) + (int \<times> 'w sys)" where
  "fsGetUsed nb pool conn s =
     (case deref pool conn of
        Inl f \<Rightarrow> Inl (f, s)
      | Inr c \<Rightarrow> Inr (invoke nb (Call ''_dfsGetUsed'' [P (connection c)]) s))"

definition fsChown ::
  "'w native \<Rightarrow> dfsConnection list \<Rightarrow> raiiDfsConnection \<Rightarrow> string \<Rightarrow> string \<Rightarrow> string \<Rightarrow> 'w sys \<Rightarrow> (fault \<times> 'w sys) + (int \<times> 'w sys)" where
  "fsChown nb pool conn path owner grp s =
     (case deref pool conn of
        Inl f \<Rightarrow> Inl (f, s)
      | Inr c \<Rightarrow> Inr (invoke nb (Call ''_dfsChown'' [P (connection c), S path, S owner, S grp]) s))"

definition fsChmod ::
  "'w native \<Rightarrow> dfsConnection list \<Rightarrow> raiiDfsConnection \<Rightarrow> string \<Rightarrow> int \<Rightarrow> 'w sys \<Rightarrow> (fault \<times> 'w sys) + (int \<times> 'w sys)" where
  "fsChmod nb pool conn path mode s =
     (case deref pool conn of
        Inl f \<Rightarrow> Inl (f, s)
      | Inr c \<Rightarrow> Inr (invoke nb (Call ''_dfsChmod'' [P (connection c), S path, I mode]) s))"

text \<open>\<^verbatim>\<open>pathExists\<close> turns the native status into a boolean: status 0 is "exists".\<close>

definition pathExists ::
  "'w native \<Rightarrow> dfsConnection list \<Rightarrow> raiiDfsConnection \<Rightarrow> string \<Rightarrow> 'w sys \<Rightarrow> (fault \<times> 'w sys) + (bool \<times> 'w sys)" where
  "pathExists nb pool conn path s =
     (case deref pool conn of
        Inl f \<Rightarrow> Inl (f, s)
      | Inr c \<Rightarrow>
          (let (r, s') = invoke nb (Call ''_dfsPathExists'' [P (connection c), S path]) s
           in Inr (r = 0, s')))"

text \<open>
  \<^verbatim>\<open>fileCopy\<close> and \<^verbatim>\<open>fsMove\<close> take two leases, which may come from the pools of two
  adaptors; both are dereferenced to build the argument list of the one native call.
\<close>

definition fileCopy ::
  "'w native \<Rightarrow> dfsConnection list \<Rightarrow> raiiDfsConnection \<Rightarrow> string
     \<Rightarrow> dfsConnection list \<Rightarrow> raiiDfsConnection \<Rightarrow> string \<Rightarrow> 'w sys \<Rightarrow> (fault \<times> 'w sys) + (int \<times> 'w sys)" where
  "fileCopy nb pool_src conn_src src pool_dest conn_dest dst s =
     (case deref pool_src conn_src of
        Inl f \<Rightarrow> Inl (f, s)
      | Inr c \<Rightarrow>
          (case deref pool_dest conn_dest of
             Inl f \<Rightarrow> Inl (f, s)
           | Inr d \<Rightarrow>
               Inr (invoke nb (Call ''_dfsCopy'' [P (connection c), S src, P (connection d), S dst]) s)))"

definition fsMove ::
  "'w native \<Rightarrow> dfsConnection list \<Rightarrow> raiiDfsConnection \<Rightarrow> string
     \<Rightarrow> dfsConnection list \<Rightarrow> raiiDfsConnection \<Rightarrow> string \<Rightarrow> 'w sys \<Rightarrow> (fault \<times> 'w sys) + (int \<times> 'w sys)" where
  "fsMove nb pool_src conn_src src pool_dest conn_dest dst s =
     (case deref pool_src conn_src of
        Inl f \<Rightarrow> Inl (f, s)
      | Inr c \<Rightarrow>
          (case deref pool_dest conn_dest of
             Inl f \<Rightarrow> Inl (f, s)
           | Inr d \<Rightarrow>
               Inr (invoke nb (Call ''_dfsMove'' [P (connection c), S src, P (connection d), S dst]) s)))"

section \<open>The adaptor and its connection pool\<close>

text \<open>
  \<^verbatim>\<open>FileSystemDescriptorBound\<close> and its subclass \<^verbatim>\<open>TachyonFileSystemDescriptorBound\<close>,
  which overrides \<^verbatim>\<open>fileOpen\<close>; \<open>kind\<close> is the dynamic type of the object.

  Modelled from the spec: the class declaration and its constructor are in
  \<^verbatim>\<open>filesystem-descriptor-bound.hpp\<close>, which is not among the sources. The members are
  the three that the member functions name: the descriptor, the pool and the mutex
  \<^verbatim>\<open>m_mux\<close>, of which \<open>m_mux\<close> says whether it is locked at the moment. A new adaptor keeps
  the descriptor it is constructed from and starts with an empty pool (connections are
  created lazily) and an unlocked mutex.
\<close>

datatype adaptor_kind = Base | Tachyon

record FileSystemDescriptorBound =
  kind :: adaptor_kind
  m_fsDescriptor :: FileSystemDescriptor
  m_connections :: "dfsConnection list"
  m_mux :: bool

text \<open>
  \<^verbatim>\<open>connect()\<close>. The builder is named after the host and the file system type when the
  host is not empty, after the null host otherwise; the port is set only when it is positive.
  The one call that reaches the file system is \<^verbatim>\<open>_dfsBuilderConnect\<close>.
\<close>

definition connect :: "'w native \<Rightarrow> FileSystemDescriptor \<Rightarrow> 'w sys \<Rightarrow> fsBridge \<times> 'w sys" where
  "connect nb d s =
     (let fs_builder = [];
          fs_builder = (if host d \<noteq> [] then fs_builder @ [SetHostAndFilesystemType (host d) (dfs_type d)]
                        else fs_builder @ [SetHost None]);
          fs_builder = (if port d > 0 then fs_builder @ [SetPort (port d)] else fs_builder)
      in invoke nb (Call ''_dfsBuilderConnect'' [Bld fs_builder]) s)"

text \<open>
  \<^verbatim>\<open>std::find_if\<close> over the pool: the position of the first element that satisfies the
  predicate, \<open>None\<close> for \<^verbatim>\<open>end()\<close>.
\<close>

fun find_if :: "('a \<Rightarrow> bool) \<Rightarrow> 'a list \<Rightarrow> nat option" where
  "find_if p [] = None"
| "find_if p (x # xs) = (if p x then Some 0 else map_option Suc (find_if p xs))"

text \<open>
  Modelled from the spec: the two predicate classes are declared in the missing header. A
  free connection is one in state FreeReady; the second predicate holds for a connection "in
  neither Busy nor FreeReady", which is also what the comment above its use says.
\<close>

definition freeConnectionPredicate :: "dfsConnection \<Rightarrow> bool" where
  "freeConnectionPredicate c = (state c = FREE_INITIALIZED)"

definition anyNonInitializedConnectionPredicate :: "dfsConnection \<Rightarrow> bool" where
  "anyNonInitializedConnectionPredicate c = (state c \<noteq> BUSY_OK \<and> state c \<noteq> FREE_INITIALIZED)"

text \<open>
  \<^verbatim>\<open>getFreeConnection()\<close>: the lease, the adaptor and the system after the call.

  Line 85, \<^verbatim>\<open>boost::mutex::scoped_lock(m_mux);\<close>, is a declaration: it declares a local
  lock object named \<^verbatim>\<open>m_mux\<close>, built by the default constructor, which owns no mutex.
  The member mutex is neither tested nor locked by it, so the statement has no counterpart
  here and \<open>m_mux\<close> is left alone (a lock held to the end of the body would also stop the
  recursive call at line 128, the mutex not being recursive). The registry, in contrast, names its guards and passes them the mutex:
  \<^verbatim>\<open>boost::mutex::scoped_lock lockconn(m_connmux);\<close>.

  Modelled from the spec: the lease class is declared in the missing header. Building a
  lease over a connection and moving it to the caller do not change the pool; the state
  \<open>BUSY_OK\<close> is written by the assignments of this function.
\<close>

function getFreeConnection ::
  "'w native \<Rightarrow> FileSystemDescriptorBound \<Rightarrow> 'w sys
     \<Rightarrow> raiiDfsConnection \<times> FileSystemDescriptorBound \<times> 'w sys" where
  "getFreeConnection nb a s =
     (case find_if freeConnectionPredicate (m_connections a) of
        Some i1 \<Rightarrow>
          (Some i1,
           a\<lparr>m_connections := (m_connections a)[i1 := (m_connections a ! i1)\<lparr>state := BUSY_OK\<rparr>]\<rparr>,
           s)
      | None \<Rightarrow>
          (case find_if anyNonInitializedConnectionPredicate (m_connections a) of
             Some i2 \<Rightarrow>
               (let (conn, s') = connect nb (m_fsDescriptor a) s
                in if conn \<noteq> NULL
                   then (Some i2,
                         a\<lparr>m_connections :=
                              (m_connections a)[i2 := (m_connections a ! i2)\<lparr>connection := conn, state := BUSY_OK\<rparr>]\<rparr>,
                         s')
                   else (None, a, s'))
           | None \<Rightarrow>
               (let connection0 = \<lparr>connection = NULL, state = NON_INITIALIZED\<rparr>;
                    (conn, s') = connect nb (m_fsDescriptor a) s
                in if conn \<noteq> NULL
                   then getFreeConnection nb
                          (a\<lparr>m_connections :=
                               m_connections a @ [connection0\<lparr>connection := conn, state := FREE_INITIALIZED\<rparr>]\<rparr>)
                          s'
                   else (None, a, s'))))"
  by pat_completeness auto

text \<open>What \<open>find_if\<close> returns, for the termination argument and the proofs below.\<close>

lemma find_if_None: "find_if p xs = None \<longleftrightarrow> (\<forall>x\<in>set xs. \<not> p x)"
  by (induction xs) auto

lemma find_if_Some:
  "find_if p xs = Some i \<longleftrightarrow> (i < length xs \<and> p (xs ! i) \<and> (\<forall>j<i. \<not> p (xs ! j)))"
proof (induction xs arbitrary: i)
  case Nil
  then show ?case by simp
next
  case (Cons x xs)
  show ?case
  proof (cases "p x")
    case True
    then show ?thesis by (cases i) auto
  next
    case False
    show ?thesis
    proof (cases i)
      case 0
      with False show ?thesis by simp
    next
      case (Suc k)
      with False Cons.IH [of k] show ?thesis
        by (auto simp: less_Suc_eq_0_disj)
    qed
  qed
qed

text \<open>
  The recursive call is made only when the pool holds no free connection, on a pool that
  ends in one: the call finds it and returns.
\<close>

termination getFreeConnection
  by (relation "measure (\<lambda>(nb, a, s).
        if find_if freeConnectionPredicate (m_connections a) = None then 1 else 0)")
     (auto simp: find_if_None freeConnectionPredicate_def)

declare getFreeConnection.simps [simp del]

section \<open>\<^verbatim>\<open>TachyonFileSystemDescriptorBound::fileOpen\<close>\<close>

text \<open>\<^verbatim>\<open>O_WRONLY\<close> of \<^verbatim>\<open><fcntl.h>\<close> (Linux), and the size of the scratch buffer.\<close>

definition O_RDONLY :: int where
  "O_RDONLY = 0"

definition O_WRONLY :: int where
  "O_WRONLY = 1"


definition O_APPEND :: int where
  "O_APPEND = 1024"

definition BUFFER_SIZE :: int where
  "BUFFER_SIZE = 6684672"

abbreviation DfsOpenFile :: "fsBridge \<Rightarrow> string \<Rightarrow> int \<Rightarrow> int \<Rightarrow> int \<Rightarrow> int \<Rightarrow> native_call" where
  "DfsOpenFile c path flags bufferSize replication blocksize \<equiv>
     Call ''_dfsOpenFile'' [P c, S path, I flags, I bufferSize, I replication, I blocksize]"

abbreviation DfsCloseFile :: "fsBridge \<Rightarrow> dfsFile \<Rightarrow> native_call" where
  "DfsCloseFile c file \<equiv> Call ''_dfsCloseFile'' [P c, P file]"

abbreviation DfsRead :: "fsBridge \<Rightarrow> dfsFile \<Rightarrow> ptr \<Rightarrow> int \<Rightarrow> native_call" where
  "DfsRead c file buffer len \<equiv> Call ''_dfsRead'' [P c, P file, P buffer, I len]"

abbreviation Malloc :: "int \<Rightarrow> native_call" where
  "Malloc n \<equiv> Call ''malloc'' [I n]"

abbreviation Free :: "ptr \<Rightarrow> native_call" where
  "Free b \<equiv> Call ''free'' [P b]"

text \<open>
  The loop of the \<^verbatim>\<open>reader\<close> closure, entered after the first read: while the last read
  returned a positive count, add it to \<^verbatim>\<open>bytes\<close> and read again. \<^verbatim>\<open>bytes\<close> is a 32-bit
  \<^verbatim>\<open>tSize\<close>, so the sum is taken in 32 bits; nothing reads it afterwards. The loop ends
  only when a read returns zero or less, so the result is an option: \<open>None\<close> is a loop
  that reads for ever.
\<close>

partial_function (option) reader_loop ::
  "'w native \<Rightarrow> fsBridge \<Rightarrow> dfsFile \<Rightarrow> ptr \<Rightarrow> int \<Rightarrow> int \<Rightarrow> 'w sys \<Rightarrow> (int \<times> int \<times> 'w sys) option" where
  "reader_loop nb c handle buffer last_read bytes s =
     (if last_read > 0
      then (let bytes' = signed_take_bit 31 (bytes + last_read);
                (r, s') = invoke nb (DfsRead c handle buffer BUFFER_SIZE) s
            in reader_loop nb c handle buffer r bytes' s')
      else Some (last_read, bytes, s))"

definition reader ::
  "'w native \<Rightarrow> fsBridge \<Rightarrow> dfsFile \<Rightarrow> ptr \<Rightarrow> 'w sys \<Rightarrow> (int \<times> int \<times> 'w sys) option" where
  "reader nb c handle buffer s =
     (let (last_read, s') = invoke nb (DfsRead c handle buffer BUFFER_SIZE) s
      in reader_loop nb c handle buffer last_read 0 s')"

text \<open>
  The override of \<^verbatim>\<open>fileOpen\<close>. The lease is dereferenced at the first native call; the
  pool does not change during the call, so the later dereferences find the same handle.
  The result is the returned \<^verbatim>\<open>dfsFile\<close> (\<open>NULL\<close> for the null handle) and the system
  after the call, or the fault of the first dereference and the system as it was.
\<close>

definition Tachyon_fileOpen ::
  "'w native \<Rightarrow> dfsConnection list \<Rightarrow> raiiDfsConnection \<Rightarrow> string \<Rightarrow> int \<Rightarrow> int \<Rightarrow> int \<Rightarrow> int
     \<Rightarrow> 'w sys \<Rightarrow> ((fault \<times> 'w sys) + (dfsFile \<times> 'w sys)) option" where
  "Tachyon_fileOpen nb pool conn path flags bufferSize replication blocksize s =
     (case deref pool conn of
        Inl f \<Rightarrow> Some (Inl (f, s))
      | Inr c \<Rightarrow>
          (let (handle, s1) = invoke nb (DfsOpenFile (connection c) path flags bufferSize replication blocksize) s
           in if handle = NULL then Some (Inr (handle, s1))
              else if flags = O_WRONLY then Some (Inr (handle, s1))
              else
                (let (buffer, s2) = invoke nb (Malloc BUFFER_SIZE) s1
                 in if buffer = NULL
                    then (let (_, s3) = invoke nb (DfsCloseFile (connection c) handle) s2
                          in Some (Inr (NULL, s3)))
                    else
                      (case reader nb (connection c) handle buffer s2 of
                         None \<Rightarrow> None
                       | Some (last_read, bytes, s3) \<Rightarrow>
                           if last_read = 0
                           then (let (_, s4) = invoke nb (Free buffer) s3;
                                     (ret, s5) = invoke nb (DfsCloseFile (connection c) handle) s4
                                 in if ret \<noteq> 0 then Some (Inr (NULL, s5))
                                    else Some (Inr (invoke nb
                                           (DfsOpenFile (connection c) path flags bufferSize replication blocksize) s5)))
                           else Some (Inr (NULL, s3))))))"

text \<open>
  What the file system answers to a run of reads: \<open>nth_read \<dots> k s\<close> is the value returned
  by the last of \<open>k + 1\<close> consecutive \<^verbatim>\<open>_dfsRead\<close> calls on the handle, started in \<open>s\<close>,
  and the system after it. It serves to say "the first \<open>k\<close> reads return data and the next
  one returns \<open>r\<close>".
\<close>

primrec nth_read :: "'w native \<Rightarrow> fsBridge \<Rightarrow> dfsFile \<Rightarrow> ptr \<Rightarrow> nat \<Rightarrow> 'w sys \<Rightarrow> int \<times> 'w sys" where
  "nth_read nb c handle buffer 0 s = invoke nb (DfsRead c handle buffer BUFFER_SIZE) s"
| "nth_read nb c handle buffer (Suc k) s =
     invoke nb (DfsRead c handle buffer BUFFER_SIZE) (snd (nth_read nb c handle buffer k s))"

section \<open>The registry\<close>

text \<open>
  \<^verbatim>\<open>resolveFsAddress\<close>. The builder gets the descriptor's host (the null host when it is
  empty) and its port. The resolver writes through the pointers to the descriptor's
  \<^verbatim>\<open>port\<close> and \<^verbatim>\<open>dfs_type\<close> whatever its status is; the host is copied from the
  buffer, and a negative port replaced by 0, only when the status is 0.
\<close>

definition resolveFsAddress ::
  "'w native \<Rightarrow> FileSystemDescriptor \<Rightarrow> 'w sys \<Rightarrow> int \<times> FileSystemDescriptor \<times> 'w sys" where
  "resolveFsAddress nb fsDescriptor s =
     (let fs_builder = (if host fsDescriptor \<noteq> [] then [SetHost (Some (host fsDescriptor))]
                        else [SetHost None]);
          fs_builder = fs_builder @ [SetPort (port fsDescriptor)];
          ((status, host_buf, port_out, type_out), w') =
             dfsGetDefaultFsHostPortType nb fs_builder (port fsDescriptor) (dfs_type fsDescriptor) (world s);
          s' = \<lparr>world = w', calls = calls s @ [Call ''_dfsGetDefaultFsHostPortType'' [Bld fs_builder]]\<rparr>;
          fsDescriptor = fsDescriptor\<lparr>port := port_out, dfs_type := type_out\<rparr>;
          fsDescriptor =
            (if status = 0
             then fsDescriptor\<lparr>host := host_buf,
                               port := (if port fsDescriptor < 0 then 0 else port fsDescriptor)\<rparr>
             else fsDescriptor)
      in (status, fsDescriptor, s'))"

text \<open>
  The state of \<^verbatim>\<open>CacheLayerRegistry\<close> that these functions use. The adaptors are objects
  allocated with \<^verbatim>\<open>new\<close> and held by shared pointers: \<open>adaptors\<close> is the store of the
  adaptor objects allocated so far, and a shared pointer is the position of its object
  there. \<^verbatim>\<open>m_filesystems\<close> is the map from file system type to the map from host to
  shared pointer; \<^verbatim>\<open>m_createFromSelect\<close> maps a local file handle to a remote one.
\<close>

record CacheLayerRegistry =
  adaptors :: "FileSystemDescriptorBound list"
  m_filesystems :: "DFS_TYPE \<rightharpoonup> (string \<rightharpoonup> nat)"
  m_createFromSelect :: "dfsFile \<rightharpoonup> dfsFile"

datatype StatusInternal = OK | DFS_ADAPTOR_IS_NOT_CONFIGURED

text \<open>
  Lines 69 to 82 of \<^verbatim>\<open>setupFileSystem\<close>, run with the resolved descriptor.
  \<^verbatim>\<open>m_filesystems[type]\<close> is \<^verbatim>\<open>std::map::operator[]\<close>: it first inserts an empty inner
  map when the type has none. The constructor of the adaptor is modelled from the spec (the
  header is missing): the adaptor keeps the descriptor and has an empty pool.
\<close>

definition registerAdaptor ::
  "CacheLayerRegistry \<Rightarrow> FileSystemDescriptor \<Rightarrow> StatusInternal \<times> CacheLayerRegistry" where
  "registerAdaptor reg fsDescriptor =
     (let inner = (case m_filesystems reg (dfs_type fsDescriptor) of None \<Rightarrow> Map.empty | Some m \<Rightarrow> m);
          reg = reg\<lparr>m_filesystems := (m_filesystems reg)(dfs_type fsDescriptor \<mapsto> inner)\<rparr>
      in if inner (host fsDescriptor) \<noteq> None then (OK, reg)
         else
           (let descriptor = length (adaptors reg);
                object = \<lparr>kind = (if dfs_type fsDescriptor = tachyon then Tachyon else Base),
                          m_fsDescriptor = fsDescriptor, m_connections = [], m_mux = False\<rparr>
            in (OK, reg\<lparr>adaptors := adaptors reg @ [object],
                        m_filesystems :=
                          (m_filesystems reg)(dfs_type fsDescriptor \<mapsto> inner(host fsDescriptor \<mapsto> descriptor))\<rparr>)))"

text \<open>
  \<^verbatim>\<open>setupFileSystem\<close>. The descriptor is passed by reference, so the descriptor after the
  call is part of the result. \<open>DEFAULT_FS\<close> is \<^verbatim>\<open>constants::DEFAULT_FS\<close>, which is
  defined outside the sources, so it is a parameter.
\<close>

definition setupFileSystem ::
  "'w native \<Rightarrow> string \<Rightarrow> CacheLayerRegistry \<Rightarrow> FileSystemDescriptor \<Rightarrow> 'w sys
     \<Rightarrow> StatusInternal \<times> FileSystemDescriptor \<times> CacheLayerRegistry \<times> 'w sys" where
  "setupFileSystem nb DEFAULT_FS reg fsDescriptor s =
     (if host fsDescriptor = DEFAULT_FS
      then (let (status, fsDescriptor, s) = resolveFsAddress nb fsDescriptor s
            in if status \<noteq> 0 then (DFS_ADAPTOR_IS_NOT_CONFIGURED, fsDescriptor, reg, s)
               else (let (st, reg) = registerAdaptor reg fsDescriptor in (st, fsDescriptor, reg, s)))
      else (let (st, reg) = registerAdaptor reg fsDescriptor in (st, fsDescriptor, reg, s)))"

text \<open>
  \<^verbatim>\<open>getFileSystemDescriptor\<close>: the shared pointer stored for (type, host), \<open>None\<close> for
  \<^verbatim>\<open>nullptr\<close>. Both \<^verbatim>\<open>operator[]\<close> are reached only when the keys are present, so the
  registry is not changed.
\<close>

definition getFileSystemDescriptor :: "CacheLayerRegistry \<Rightarrow> FileSystemDescriptor \<Rightarrow> nat option" where
  "getFileSystemDescriptor reg fsDescriptor =
     (case m_filesystems reg (dfs_type fsDescriptor) of
        None \<Rightarrow> None
      | Some inner \<Rightarrow>
          (case inner (host fsDescriptor) of
             None \<Rightarrow> None
           | Some descriptor \<Rightarrow> Some descriptor))"

text \<open>The create-from-select scenarios.\<close>

definition registerCreateFromSelectScenario ::
  "CacheLayerRegistry \<Rightarrow> dfsFile \<Rightarrow> dfsFile \<Rightarrow> bool \<times> CacheLayerRegistry" where
  "registerCreateFromSelectScenario reg local_file remote =
     (if m_createFromSelect reg local_file = None
      then (True, reg\<lparr>m_createFromSelect := (m_createFromSelect reg)(local_file \<mapsto> remote)\<rparr>)
      else (False, reg))"

definition unregisterCreateFromSelectScenario ::
  "CacheLayerRegistry \<Rightarrow> dfsFile \<Rightarrow> bool \<times> CacheLayerRegistry" where
  "unregisterCreateFromSelectScenario reg local_file =
     (let erased_items = (if m_createFromSelect reg local_file = None then 0 else 1 :: nat);
          reg = reg\<lparr>m_createFromSelect := (m_createFromSelect reg)(local_file := None)\<rparr>
      in (erased_items = 1, reg))"

text \<open>\<^verbatim>\<open>getCreateFromSelectScenario\<close>: the returned handle and the flag \<^verbatim>\<open>exists\<close>.\<close>

definition getCreateFromSelectScenario :: "CacheLayerRegistry \<Rightarrow> dfsFile \<Rightarrow> dfsFile \<times> bool" where
  "getCreateFromSelectScenario reg local_file =
     (case m_createFromSelect reg local_file of
        None \<Rightarrow> (NULL, False)
      | Some remote \<Rightarrow> (remote, True))"

text \<open>
  \<open>n\<close> calls of \<^verbatim>\<open>setupFileSystem\<close> in a row on the same descriptor object: the list of
  the returned statuses, and the descriptor, the registry and the system after the last call.
\<close>

primrec setupFileSystem_times ::
  "nat \<Rightarrow> 'w native \<Rightarrow> string \<Rightarrow> CacheLayerRegistry \<Rightarrow> FileSystemDescriptor \<Rightarrow> 'w sys
     \<Rightarrow> StatusInternal list \<times> FileSystemDescriptor \<times> CacheLayerRegistry \<times> 'w sys" where
  "setupFileSystem_times 0 nb DEFAULT_FS reg d s = ([], d, reg, s)"
| "setupFileSystem_times (Suc n) nb DEFAULT_FS reg d s =
     (let (st, d1, reg1, s1) = setupFileSystem nb DEFAULT_FS reg d s;
          (sts, d2, reg2, s2) = setupFileSystem_times n nb DEFAULT_FS reg1 d1 s1
      in (st # sts, d2, reg2, s2))"

section \<open>Concrete instances\<close>

text \<open>
  A native binding for the concrete instances below: its world is a script, the list of
  the values that the coming calls return (0 once the script is used up). The resolver
  takes its status and the port from the script and reports the host \<open>namenode\<close> of type
  \<open>hdfs\<close>.
\<close>

definition scripted_native :: "int list native" where
  "scripted_native =
     \<lparr>dfs_call = (\<lambda>c w. case w of [] \<Rightarrow> (0, []) | r # rs \<Rightarrow> (r, rs)),
      dfsGetDefaultFsHostPortType =
        (\<lambda>b p t w. case w of
                     [] \<Rightarrow> ((- 1, [], p, t), [])
                   | r # rs \<Rightarrow> ((r, ''namenode'', (case rs of [] \<Rightarrow> p | q # _ \<Rightarrow> q), hdfs), tl rs))\<rparr>"

text \<open>
  A binding whose resolver resolves nothing: it returns status 0 with the host name
  \<open>default\<close> in the buffer and leaves the port and the type as they are.
\<close>

definition unresolving_native :: "unit native" where
  "unresolving_native =
     \<lparr>dfs_call = (\<lambda>c w. (0, w)),
      dfsGetDefaultFsHostPortType = (\<lambda>b p t w. ((0, ''default'', p, t), w))\<rparr>"


definition empty_registry :: CacheLayerRegistry where
  "empty_registry = \<lparr>adaptors = [], m_filesystems = Map.empty, m_createFromSelect = Map.empty\<rparr>"

text \<open>Two descriptors: a tiered-memory endpoint, and one that asks for resolution.\<close>

definition tachyon_nn1 :: FileSystemDescriptor where
  "tachyon_nn1 = \<lparr>dfs_type = tachyon, host = ''nn1'', port = 8020, credentials = [], password = [], valid = True\<rparr>"

definition default_descriptor :: FileSystemDescriptor where
  "default_descriptor =
     \<lparr>dfs_type = DEFAULT_FROM_CONFIG, host = ''default'', port = 0, credentials = [], password = [], valid = True\<rparr>"

text \<open>An adaptor for the first descriptor, with a given pool.\<close>

definition adaptor_nn1 :: "dfsConnection list \<Rightarrow> FileSystemDescriptorBound" where
  "adaptor_nn1 pool = \<lparr>kind = Tachyon, m_fsDescriptor = tachyon_nn1, m_connections = pool, m_mux = False\<rparr>"

text \<open>A pool with one leased connection, whose handle is 42.\<close>

definition leased_pool :: "dfsConnection list" where
  "leased_pool = [\<lparr>connection = 42, state = BUSY_OK\<rparr>]"

section \<open>Properties of the adaptor\<close>

subsection \<open>Pass-through operations\<close>

lemmas passthrough_defs =
  fileOpen_def fileClose_def fileTell_def fileSeek_def fileRead_def filePread_def fileWrite_def
  fileFlush_def fileRename_def pathDelete_def fileInfo_def listDirectory_def createDirectory_def
  getDefaultBlockSize_def fileAvailable_def fsSetReplication_def fsGetCapacity_def fsGetUsed_def
  fsChown_def fsChmod_def pathExists_def fileCopy_def fsMove_def

text \<open>
  With a lease that holds a connection (two leases for \<^verbatim>\<open>fileCopy\<close> and \<^verbatim>\<open>fsMove\<close>),
  every pass-through operation makes exactly the corresponding native call with the handle
  of that connection and returns what the call returns; \<^verbatim>\<open>pathExists\<close> returns whether
  the returned status is 0.
\<close>

lemma passthrough_valid_lease:
  assumes "deref pool conn = Inr c" and "deref pool2 conn2 = Inr c2"
  shows
   "fileOpen nb pool conn path flags bufferSize replication blocksize s
      = Inr (invoke nb (Call ''_dfsOpenFile''
               [P (connection c), S path, I flags, I bufferSize, I replication, I blocksize]) s)
    \<and> fileClose nb pool conn file s = Inr (invoke nb (Call ''_dfsCloseFile'' [P (connection c), P file]) s)
    \<and> fileTell nb pool conn file s = Inr (invoke nb (Call ''_dfsTell'' [P (connection c), P file]) s)
    \<and> fileSeek nb pool conn file pos s
      = Inr (invoke nb (Call ''_dfsSeek'' [P (connection c), P file, I pos]) s)
    \<and> fileRead nb pool conn file buffer len s
      = Inr (invoke nb (Call ''_dfsRead'' [P (connection c), P file, P buffer, I len]) s)
    \<and> filePread nb pool conn file pos buffer len s
      = Inr (invoke nb (Call ''_dfsPread'' [P (connection c), P file, I pos, P buffer, I len]) s)
    \<and> fileWrite nb pool conn file buffer len s
      = Inr (invoke nb (Call ''_dfsWrite'' [P (connection c), P file, P buffer, I len]) s)
    \<and> fileFlush nb pool conn file s = Inr (invoke nb (Call ''_dfsFlush'' [P (connection c), P file]) s)
    \<and> fileRename nb pool conn path path2 s
      = Inr (invoke nb (Call ''_dfsRename'' [P (connection c), S path, S path2]) s)
    \<and> pathDelete nb pool conn path recursive s
      = Inr (invoke nb (Call ''_dfsDelete'' [P (connection c), S path, I recursive]) s)
    \<and> fileInfo nb pool conn path s = Inr (invoke nb (Call ''_dfsGetPathInfo'' [P (connection c), S path]) s)
    \<and> listDirectory nb pool conn path numEntries s
      = Inr (invoke nb (Call ''_dfsListDirectory'' [P (connection c), S path, P numEntries]) s)
    \<and> createDirectory nb pool conn path s
      = Inr (invoke nb (Call ''_dfsCreateDirectory'' [P (connection c), S path]) s)
    \<and> pathExists nb pool conn path s
      = Inr (fst (invoke nb (Call ''_dfsPathExists'' [P (connection c), S path]) s) = 0,
             snd (invoke nb (Call ''_dfsPathExists'' [P (connection c), S path]) s))
    \<and> fileCopy nb pool conn path pool2 conn2 path2 s
      = Inr (invoke nb (Call ''_dfsCopy'' [P (connection c), S path, P (connection c2), S path2]) s)
    \<and> fsMove nb pool conn path pool2 conn2 path2 s
      = Inr (invoke nb (Call ''_dfsMove'' [P (connection c), S path, P (connection c2), S path2]) s)
    \<and> getDefaultBlockSize nb pool conn s
      = Inr (invoke nb (Call ''_dfsGetDefaultBlockSize'' [P (connection c)]) s)
    \<and> fileAvailable nb pool conn file s
      = Inr (invoke nb (Call ''_dfsAvailable'' [P (connection c), P file]) s)
    \<and> fsSetReplication nb pool conn path replication s
      = Inr (invoke nb (Call ''_dfsSetReplication'' [P (connection c), S path, I replication]) s)
    \<and> fsGetCapacity nb pool conn s = Inr (invoke nb (Call ''_dfsGetCapacity'' [P (connection c)]) s)
    \<and> fsGetUsed nb pool conn s = Inr (invoke nb (Call ''_dfsGetUsed'' [P (connection c)]) s)
    \<and> fsChown nb pool conn path owner grp s
      = Inr (invoke nb (Call ''_dfsChown'' [P (connection c), S path, S owner, S grp]) s)
    \<and> fsChmod nb pool conn path mode s
      = Inr (invoke nb (Call ''_dfsChmod'' [P (connection c), S path, I mode]) s)"
  using assms by (simp add: passthrough_defs split: prod.splits)

text \<open>
  Claim C1, as stated, does not hold: with an empty lease \<^verbatim>\<open>fileOpen\<close> and
  \<^verbatim>\<open>fileRead\<close> do not return a failure value. They dereference the null shared pointer
  of the lease and fault there.
\<close>

theorem empty_lease_counterexample:
  "fileOpen scripted_native [] None ''/warehouse/t1'' O_RDONLY 0 0 0 \<lparr>world = [], calls = []\<rparr>
     = Inl (NullPointerDereference, \<lparr>world = [], calls = []\<rparr>)
   \<and> fileRead scripted_native [] None 7 100 4096 \<lparr>world = [], calls = []\<rparr>
     = Inl (NullPointerDereference, \<lparr>world = [], calls = []\<rparr>)"
  by (simp add: fileOpen_def fileRead_def deref_def)

text \<open>
  Claim C1, amended. With an empty lease, each of the 23 pass-through operations ends at
  the dereference of the lease, for every binding, pool, argument list and system: it makes
  no native call (the system, and with it the log of the calls, is as it was), and it does
  not return a failure value either, its outcome being the null-pointer fault. For
  \<^verbatim>\<open>fileCopy\<close> and \<^verbatim>\<open>fsMove\<close> this holds when the first lease is empty, and an empty
  second lease gives a fault with the system as it was whatever the first lease is.
\<close>

theorem passthrough_empty_lease:
  "fileOpen nb pool None path flags bufferSize replication blocksize s = Inl (NullPointerDereference, s)
    \<and> fileClose nb pool None file s = Inl (NullPointerDereference, s)
    \<and> fileTell nb pool None file s = Inl (NullPointerDereference, s)
    \<and> fileSeek nb pool None file pos s = Inl (NullPointerDereference, s)
    \<and> fileRead nb pool None file buffer len s = Inl (NullPointerDereference, s)
    \<and> filePread nb pool None file pos buffer len s = Inl (NullPointerDereference, s)
    \<and> fileWrite nb pool None file buffer len s = Inl (NullPointerDereference, s)
    \<and> fileFlush nb pool None file s = Inl (NullPointerDereference, s)
    \<and> fileRename nb pool None path path2 s = Inl (NullPointerDereference, s)
    \<and> pathDelete nb pool None path recursive s = Inl (NullPointerDereference, s)
    \<and> fileInfo nb pool None path s = Inl (NullPointerDereference, s)
    \<and> listDirectory nb pool None path numEntries s = Inl (NullPointerDereference, s)
    \<and> createDirectory nb pool None path s = Inl (NullPointerDereference, s)
    \<and> pathExists nb pool None path s = Inl (NullPointerDereference, s)
    \<and> getDefaultBlockSize nb pool None s = Inl (NullPointerDereference, s)
    \<and> fileAvailable nb pool None file s = Inl (NullPointerDereference, s)
    \<and> fsSetReplication nb pool None path replication s = Inl (NullPointerDereference, s)
    \<and> fsGetCapacity nb pool None s = Inl (NullPointerDereference, s)
    \<and> fsGetUsed nb pool None s = Inl (NullPointerDereference, s)
    \<and> fsChown nb pool None path owner grp s = Inl (NullPointerDereference, s)
    \<and> fsChmod nb pool None path mode s = Inl (NullPointerDereference, s)
    \<and> fileCopy nb pool None path pool2 conn2 path2 s = Inl (NullPointerDereference, s)
    \<and> (\<exists>f. fileCopy nb pool conn path pool2 None path2 s = Inl (f, s))
    \<and> fsMove nb pool None path pool2 conn2 path2 s = Inl (NullPointerDereference, s)
    \<and> (\<exists>f. fsMove nb pool conn path pool2 None path2 s = Inl (f, s))"
  by (auto simp: passthrough_defs deref_def split: sum.splits option.splits)

subsection \<open>\<^verbatim>\<open>getFreeConnection\<close>\<close>

lemma dfsConnection_update_all:
  "(r :: dfsConnection)\<lparr>connection := c, state := st\<rparr> = \<lparr>connection = c, state = st\<rparr>"
  by (cases r) simp

lemma find_if_append_last:
  "find_if p xs = None \<Longrightarrow> p x \<Longrightarrow> find_if p (xs @ [x]) = Some (length xs)"
  by (induction xs) (auto split: if_splits)

lemma calls_invoke: "calls (snd (invoke nb c s)) = calls s @ [c]"
  by (simp add: invoke_def split: prod.splits)

lemma calls_connect:
  "\<exists>b. calls (snd (connect nb d s)) = calls s @ [Call ''_dfsBuilderConnect'' [Bld b]]"
  by (simp add: connect_def Let_def calls_invoke)

lemma getFreeConnection_free:
  assumes "find_if freeConnectionPredicate (m_connections a) = Some i"
  shows "getFreeConnection nb a s =
           (Some i, a\<lparr>m_connections := (m_connections a)[i := (m_connections a ! i)\<lparr>state := BUSY_OK\<rparr>]\<rparr>, s)"
  using assms by (subst getFreeConnection.simps) simp

lemma getFreeConnection_repair:
  assumes "find_if freeConnectionPredicate (m_connections a) = None"
    and "find_if anyNonInitializedConnectionPredicate (m_connections a) = Some i"
  shows "getFreeConnection nb a s =
           (if fst (connect nb (m_fsDescriptor a) s) \<noteq> NULL
            then (Some i,
                  a\<lparr>m_connections := (m_connections a)
                       [i := \<lparr>connection = fst (connect nb (m_fsDescriptor a) s), state = BUSY_OK\<rparr>]\<rparr>,
                  snd (connect nb (m_fsDescriptor a) s))
            else (None, a, snd (connect nb (m_fsDescriptor a) s)))"
  using assms
  by (subst getFreeConnection.simps) (simp add: dfsConnection_update_all case_prod_beta)

lemma getFreeConnection_create:
  assumes "find_if freeConnectionPredicate (m_connections a) = None"
    and "find_if anyNonInitializedConnectionPredicate (m_connections a) = None"
  shows "getFreeConnection nb a s =
           (if fst (connect nb (m_fsDescriptor a) s) \<noteq> NULL
            then (Some (length (m_connections a)),
                  a\<lparr>m_connections := m_connections a @
                       [\<lparr>connection = fst (connect nb (m_fsDescriptor a) s), state = BUSY_OK\<rparr>]\<rparr>,
                  snd (connect nb (m_fsDescriptor a) s))
            else (None, a, snd (connect nb (m_fsDescriptor a) s)))"
proof (cases "fst (connect nb (m_fsDescriptor a) s) = NULL")
  case True
  with assms show ?thesis
    by (subst getFreeConnection.simps) (simp add: case_prod_beta)
next
  case False
  let ?conn = "fst (connect nb (m_fsDescriptor a) s)"
  let ?s' = "snd (connect nb (m_fsDescriptor a) s)"
  let ?new = "\<lparr>connection = ?conn, state = FREE_INITIALIZED\<rparr>"
  let ?a' = "a\<lparr>m_connections := m_connections a @ [?new]\<rparr>"
  have step: "getFreeConnection nb a s = getFreeConnection nb ?a' ?s'"
    using assms False by (subst getFreeConnection.simps) (simp add: case_prod_beta)
  have "find_if freeConnectionPredicate (m_connections ?a') = Some (length (m_connections a))"
    using assms(1) by (simp add: find_if_append_last freeConnectionPredicate_def)
  then have "getFreeConnection nb ?a' ?s' =
      (Some (length (m_connections a)),
       ?a'\<lparr>m_connections := (m_connections ?a')
            [length (m_connections a) := (m_connections ?a' ! length (m_connections a))\<lparr>state := BUSY_OK\<rparr>]\<rparr>,
       ?s')"
    by (rule getFreeConnection_free)
  with step False show ?thesis
    by simp
qed


lemma getFreeConnection_cases:
  "(\<exists>i. find_if freeConnectionPredicate (m_connections a) = Some i)
   \<or> (find_if freeConnectionPredicate (m_connections a) = None
       \<and> (\<exists>i. find_if anyNonInitializedConnectionPredicate (m_connections a) = Some i))
   \<or> (find_if freeConnectionPredicate (m_connections a) = None
       \<and> find_if anyNonInitializedConnectionPredicate (m_connections a) = None)"
  by (cases "find_if freeConnectionPredicate (m_connections a)";
      cases "find_if anyNonInitializedConnectionPredicate (m_connections a)") auto

lemma getFreeConnection_pool_size:
  "length (m_connections a) \<le> length (m_connections (fst (snd (getFreeConnection nb a s))))
   \<and> length (m_connections (fst (snd (getFreeConnection nb a s)))) \<le> Suc (length (m_connections a))"
  using getFreeConnection_cases [of a]
  by (auto simp: getFreeConnection_free getFreeConnection_repair getFreeConnection_create)

text \<open>
  Claim C2. (1) When the pool has a connection in state \<open>FREE_INITIALIZED\<close> and \<open>i\<close> is
  the first such position, the lease is over slot \<open>i\<close>, that slot is marked \<open>BUSY_OK\<close>,
  and nothing else changes: no native call is made. (2) When no connection is free and
  \<open>i\<close> is the first position whose state is not \<open>BUSY_OK\<close>, \<^verbatim>\<open>connect()\<close> runs once;
  if it returns a handle, slot \<open>i\<close> gets this handle and state \<open>BUSY_OK\<close> and the lease is
  over it, otherwise the lease is empty and the adaptor is unchanged. (3) When all
  connections are busy (or the pool is empty), \<^verbatim>\<open>connect()\<close> runs once; if it returns a
  handle, a slot with this handle and state \<open>BUSY_OK\<close> is appended and the lease is over
  it, otherwise the lease is empty and the adaptor is unchanged. \<^verbatim>\<open>connect()\<close> makes one
  native call, \<^verbatim>\<open>_dfsBuilderConnect\<close>. The pool never shrinks and grows by at most 1.
\<close>

theorem getFreeConnection_algorithm:
  "(\<forall>i. i < length (m_connections a) \<and> state (m_connections a ! i) = FREE_INITIALIZED
         \<and> (\<forall>j<i. state (m_connections a ! j) \<noteq> FREE_INITIALIZED) \<longrightarrow>
       getFreeConnection nb a s =
         (Some i, a\<lparr>m_connections := (m_connections a)[i := (m_connections a ! i)\<lparr>state := BUSY_OK\<rparr>]\<rparr>, s))
   \<and> (\<forall>i. (\<forall>c\<in>set (m_connections a). state c \<noteq> FREE_INITIALIZED)
         \<and> i < length (m_connections a) \<and> state (m_connections a ! i) \<noteq> BUSY_OK
         \<and> (\<forall>j<i. state (m_connections a ! j) = BUSY_OK) \<longrightarrow>
       getFreeConnection nb a s =
         (if fst (connect nb (m_fsDescriptor a) s) \<noteq> NULL
          then (Some i,
                a\<lparr>m_connections := (m_connections a)
                     [i := \<lparr>connection = fst (connect nb (m_fsDescriptor a) s), state = BUSY_OK\<rparr>]\<rparr>,
                snd (connect nb (m_fsDescriptor a) s))
          else (None, a, snd (connect nb (m_fsDescriptor a) s))))
   \<and> ((\<forall>c\<in>set (m_connections a). state c = BUSY_OK) \<longrightarrow>
       getFreeConnection nb a s =
         (if fst (connect nb (m_fsDescriptor a) s) \<noteq> NULL
          then (Some (length (m_connections a)),
                a\<lparr>m_connections := m_connections a @
                     [\<lparr>connection = fst (connect nb (m_fsDescriptor a) s), state = BUSY_OK\<rparr>]\<rparr>,
                snd (connect nb (m_fsDescriptor a) s))
          else (None, a, snd (connect nb (m_fsDescriptor a) s))))
   \<and> (\<exists>b. calls (snd (connect nb (m_fsDescriptor a) s)) = calls s @ [Call ''_dfsBuilderConnect'' [Bld b]])
   \<and> length (m_connections a) \<le> length (m_connections (fst (snd (getFreeConnection nb a s))))
   \<and> length (m_connections (fst (snd (getFreeConnection nb a s)))) \<le> length (m_connections a) + 1"
proof -
  have c1: "getFreeConnection nb a s =
         (Some i, a\<lparr>m_connections := (m_connections a)[i := (m_connections a ! i)\<lparr>state := BUSY_OK\<rparr>]\<rparr>, s)"
    if "i < length (m_connections a)" "state (m_connections a ! i) = FREE_INITIALIZED"
       "\<forall>j<i. state (m_connections a ! j) \<noteq> FREE_INITIALIZED" for i
  proof -
    from that have "find_if freeConnectionPredicate (m_connections a) = Some i"
      by (simp add: find_if_Some freeConnectionPredicate_def)
    then show ?thesis by (rule getFreeConnection_free)
  qed
  have c2: "getFreeConnection nb a s =
         (if fst (connect nb (m_fsDescriptor a) s) \<noteq> NULL
          then (Some i,
                a\<lparr>m_connections := (m_connections a)
                     [i := \<lparr>connection = fst (connect nb (m_fsDescriptor a) s), state = BUSY_OK\<rparr>]\<rparr>,
                snd (connect nb (m_fsDescriptor a) s))
          else (None, a, snd (connect nb (m_fsDescriptor a) s)))"
    if "\<forall>c\<in>set (m_connections a). state c \<noteq> FREE_INITIALIZED"
       "i < length (m_connections a)" "state (m_connections a ! i) \<noteq> BUSY_OK"
       "\<forall>j<i. state (m_connections a ! j) = BUSY_OK" for i
  proof -
    from that(1) have f: "find_if freeConnectionPredicate (m_connections a) = None"
      by (simp add: find_if_None freeConnectionPredicate_def)
    from that have "find_if anyNonInitializedConnectionPredicate (m_connections a) = Some i"
      by (simp add: find_if_Some anyNonInitializedConnectionPredicate_def)
    with f show ?thesis by (rule getFreeConnection_repair)
  qed
  have c3: "getFreeConnection nb a s =
         (if fst (connect nb (m_fsDescriptor a) s) \<noteq> NULL
          then (Some (length (m_connections a)),
                a\<lparr>m_connections := m_connections a @
                     [\<lparr>connection = fst (connect nb (m_fsDescriptor a) s), state = BUSY_OK\<rparr>]\<rparr>,
                snd (connect nb (m_fsDescriptor a) s))
          else (None, a, snd (connect nb (m_fsDescriptor a) s)))"
    if "\<forall>c\<in>set (m_connections a). state c = BUSY_OK"
  proof -
    from that have f: "find_if freeConnectionPredicate (m_connections a) = None"
      by (simp add: find_if_None freeConnectionPredicate_def)
    from that have "find_if anyNonInitializedConnectionPredicate (m_connections a) = None"
      by (simp add: find_if_None anyNonInitializedConnectionPredicate_def)
    with f show ?thesis by (rule getFreeConnection_create)
  qed
  from c1 c2 c3 calls_connect [of nb "m_fsDescriptor a" s] getFreeConnection_pool_size [of a nb s]
  show ?thesis
    by (simp only: Suc_eq_plus1) blast
qed


theorem getFreeConnection_algorithm_witness:
  "getFreeConnection scripted_native
     (adaptor_nn1 [\<lparr>connection = 11, state = BUSY_OK\<rparr>, \<lparr>connection = 12, state = FREE_INITIALIZED\<rparr>])
     \<lparr>world = [], calls = []\<rparr>
   = (Some 1,
      adaptor_nn1 [\<lparr>connection = 11, state = BUSY_OK\<rparr>, \<lparr>connection = 12, state = BUSY_OK\<rparr>],
      \<lparr>world = [], calls = []\<rparr>)
   \<and> getFreeConnection scripted_native
     (adaptor_nn1 [\<lparr>connection = 11, state = BUSY_OK\<rparr>, \<lparr>connection = 0, state = NON_INITIALIZED\<rparr>])
     \<lparr>world = [0], calls = []\<rparr>
   = (None,
      adaptor_nn1 [\<lparr>connection = 11, state = BUSY_OK\<rparr>, \<lparr>connection = 0, state = NON_INITIALIZED\<rparr>],
      \<lparr>world = [],
       calls = [Call ''_dfsBuilderConnect'' [Bld [SetHostAndFilesystemType ''nn1'' tachyon, SetPort 8020]]]\<rparr>)
   \<and> getFreeConnection scripted_native (adaptor_nn1 []) \<lparr>world = [42], calls = []\<rparr>
   = (Some 0,
      adaptor_nn1 [\<lparr>connection = 42, state = BUSY_OK\<rparr>],
      \<lparr>world = [],
       calls = [Call ''_dfsBuilderConnect'' [Bld [SetHostAndFilesystemType ''nn1'' tachyon, SetPort 8020]]]\<rparr>)"
proof -
  let ?A = "adaptor_nn1 [\<lparr>connection = 11, state = BUSY_OK\<rparr>, \<lparr>connection = 12, state = FREE_INITIALIZED\<rparr>]"
  let ?B = "adaptor_nn1 [\<lparr>connection = 11, state = BUSY_OK\<rparr>, \<lparr>connection = 0, state = NON_INITIALIZED\<rparr>]"
  have h1: "1 < length (m_connections ?A) \<and> state (m_connections ?A ! 1) = FREE_INITIALIZED
         \<and> (\<forall>j<1. state (m_connections ?A ! j) \<noteq> FREE_INITIALIZED)"
    by (simp add: adaptor_nn1_def)
  have h2: "(\<forall>c\<in>set (m_connections ?B). state c \<noteq> FREE_INITIALIZED)
         \<and> 1 < length (m_connections ?B) \<and> state (m_connections ?B ! 1) \<noteq> BUSY_OK
         \<and> (\<forall>j<1. state (m_connections ?B ! j) = BUSY_OK)"
    by (simp add: adaptor_nn1_def)
  have h3: "\<forall>c\<in>set (m_connections (adaptor_nn1 [])). state c = BUSY_OK"
    by (simp add: adaptor_nn1_def)
  have c: "connect scripted_native tachyon_nn1 \<lparr>world = w, calls = []\<rparr> =
        (case w of [] \<Rightarrow> 0 | r # rs \<Rightarrow> r,
         \<lparr>world = (case w of [] \<Rightarrow> [] | r # rs \<Rightarrow> rs),
          calls = [Call ''_dfsBuilderConnect'' [Bld [SetHostAndFilesystemType ''nn1'' tachyon, SetPort 8020]]]\<rparr>)"
    for w
    by (simp add: connect_def invoke_def scripted_native_def tachyon_nn1_def split: list.splits)
  from getFreeConnection_algorithm [of ?A scripted_native "\<lparr>world = [], calls = []\<rparr>"] h1
  have r1: "getFreeConnection scripted_native ?A \<lparr>world = [], calls = []\<rparr> =
      (Some 1, ?A\<lparr>m_connections := (m_connections ?A)[1 := (m_connections ?A ! 1)\<lparr>state := BUSY_OK\<rparr>]\<rparr>,
       \<lparr>world = [], calls = []\<rparr>)"
    by blast
  from getFreeConnection_algorithm [of ?B scripted_native "\<lparr>world = [0], calls = []\<rparr>"] h2
  have r2: "getFreeConnection scripted_native ?B \<lparr>world = [0], calls = []\<rparr> =
         (if fst (connect scripted_native (m_fsDescriptor ?B) \<lparr>world = [0], calls = []\<rparr>) \<noteq> NULL
          then (Some 1,
                ?B\<lparr>m_connections := (m_connections ?B)
                     [1 := \<lparr>connection = fst (connect scripted_native (m_fsDescriptor ?B) \<lparr>world = [0], calls = []\<rparr>),
                           state = BUSY_OK\<rparr>]\<rparr>,
                snd (connect scripted_native (m_fsDescriptor ?B) \<lparr>world = [0], calls = []\<rparr>))
          else (None, ?B, snd (connect scripted_native (m_fsDescriptor ?B) \<lparr>world = [0], calls = []\<rparr>)))"
    by blast
  from getFreeConnection_algorithm [of "adaptor_nn1 []" scripted_native "\<lparr>world = [42], calls = []\<rparr>"] h3
  have r3: "getFreeConnection scripted_native (adaptor_nn1 []) \<lparr>world = [42], calls = []\<rparr> =
         (if fst (connect scripted_native (m_fsDescriptor (adaptor_nn1 [])) \<lparr>world = [42], calls = []\<rparr>) \<noteq> NULL
          then (Some (length (m_connections (adaptor_nn1 []))),
                (adaptor_nn1 [])\<lparr>m_connections := m_connections (adaptor_nn1 []) @
                     [\<lparr>connection = fst (connect scripted_native (m_fsDescriptor (adaptor_nn1 []))
                                          \<lparr>world = [42], calls = []\<rparr>), state = BUSY_OK\<rparr>]\<rparr>,
                snd (connect scripted_native (m_fsDescriptor (adaptor_nn1 [])) \<lparr>world = [42], calls = []\<rparr>))
          else (None, adaptor_nn1 [],
                snd (connect scripted_native (m_fsDescriptor (adaptor_nn1 [])) \<lparr>world = [42], calls = []\<rparr>)))"
    by blast
  have m: "m_fsDescriptor (adaptor_nn1 pool) = tachyon_nn1" for pool
    by (simp add: adaptor_nn1_def)
  show ?thesis
    unfolding r1 r2 r3 m c
    by (simp add: adaptor_nn1_def NULL_def)
qed

text \<open>
  The function neither reads nor writes the mutex: it does the same, with the same result,
  whether the mutex is locked or not.
\<close>

lemma getFreeConnection_m_mux:
  "getFreeConnection nb (a\<lparr>m_mux := b\<rparr>) s =
     (case getFreeConnection nb a s of (lease, a', s') \<Rightarrow> (lease, a'\<lparr>m_mux := b\<rparr>, s'))"
  using getFreeConnection_cases [of a]
  by (auto simp: getFreeConnection_free getFreeConnection_repair getFreeConnection_create)

text \<open>
  Claim C8 says that the scan of the pool and every state transition of
  \<^verbatim>\<open>getFreeConnection\<close> happen while the calling thread holds the adaptor's mutex. The
  caller does not hold it on entry, and line 85 does not take it. So a call that is entered
  while the mutex is locked, which only another thread can have done, does not wait for it:
  it scans the pool and marks the free connection busy, or connects and appends a busy slot,
  and returns the lease.
\<close>

theorem getFreeConnection_while_mutex_locked:
  "getFreeConnection scripted_native
     ((adaptor_nn1 [\<lparr>connection = 12, state = FREE_INITIALIZED\<rparr>])\<lparr>m_mux := True\<rparr>)
     \<lparr>world = [], calls = []\<rparr>
   = (Some 0,
      (adaptor_nn1 [\<lparr>connection = 12, state = BUSY_OK\<rparr>])\<lparr>m_mux := True\<rparr>,
      \<lparr>world = [], calls = []\<rparr>)
   \<and> getFreeConnection scripted_native ((adaptor_nn1 [])\<lparr>m_mux := True\<rparr>) \<lparr>world = [42], calls = []\<rparr>
   = (Some 0,
      (adaptor_nn1 [\<lparr>connection = 42, state = BUSY_OK\<rparr>])\<lparr>m_mux := True\<rparr>,
      \<lparr>world = [],
       calls = [Call ''_dfsBuilderConnect'' [Bld [SetHostAndFilesystemType ''nn1'' tachyon, SetPort 8020]]]\<rparr>)"
  by (simp add: getFreeConnection.simps adaptor_nn1_def freeConnectionPredicate_def
      anyNonInitializedConnectionPredicate_def connect_def invoke_def scripted_native_def
      tachyon_nn1_def NULL_def)

subsection \<open>The priming read of the Tachyon adaptor\<close>

text \<open>
  The reader closure returns as soon as a read returns zero or less, after exactly the reads
  up to that one; the log of a call that got that far is the open, the allocation and these
  reads.
\<close>

lemma calls_nth_read:
  "calls (snd (nth_read nb c handle buffer k s)) =
     calls s @ replicate (Suc k) (DfsRead c handle buffer BUFFER_SIZE)"
  by (induction k) (simp_all add: calls_invoke replicate_append_same)

lemma reader_loop_advance:
  assumes "\<forall>j<k. 0 < fst (nth_read nb c handle buffer j s)"
  shows "\<exists>bytes. reader nb c handle buffer s =
           reader_loop nb c handle buffer (fst (nth_read nb c handle buffer k s)) bytes
             (snd (nth_read nb c handle buffer k s))"
  using assms
proof (induction k)
  case 0
  show ?case
    by (auto simp: reader_def case_prod_beta)
next
  case (Suc k)
  then obtain bytes where b: "reader nb c handle buffer s =
           reader_loop nb c handle buffer (fst (nth_read nb c handle buffer k s)) bytes
             (snd (nth_read nb c handle buffer k s))"
    by auto
  from Suc.prems have "0 < fst (nth_read nb c handle buffer k s)"
    by simp
  then have "reader_loop nb c handle buffer (fst (nth_read nb c handle buffer k s)) bytes
             (snd (nth_read nb c handle buffer k s)) =
        reader_loop nb c handle buffer (fst (nth_read nb c handle buffer (Suc k) s))
             (signed_take_bit 31 (bytes + fst (nth_read nb c handle buffer k s)))
             (snd (nth_read nb c handle buffer (Suc k) s))"
    by (subst reader_loop.simps) (simp add: case_prod_beta)
  with b show ?case
    by auto
qed

lemma reader_returns:
  assumes "\<forall>j<k. 0 < fst (nth_read nb c handle buffer j s)"
    and "fst (nth_read nb c handle buffer k s) \<le> 0"
  shows "\<exists>bytes. reader nb c handle buffer s =
           Some (fst (nth_read nb c handle buffer k s), bytes, snd (nth_read nb c handle buffer k s))"
proof -
  from reader_loop_advance [OF assms(1)] obtain bytes where
    "reader nb c handle buffer s =
           reader_loop nb c handle buffer (fst (nth_read nb c handle buffer k s)) bytes
             (snd (nth_read nb c handle buffer k s))"
    by blast
  with assms(2) show ?thesis
    by (subst (asm) reader_loop.simps) simp
qed






lemma Tachyon_fileOpen_opened:
  assumes "deref pool conn = Inr c"
    and "invoke nb (DfsOpenFile (connection c) path flags bufferSize replication blocksize) s = (handle, s1)"
  shows "Tachyon_fileOpen nb pool conn path flags bufferSize replication blocksize s =
           (if handle = NULL \<or> flags = O_WRONLY then Some (Inr (handle, s1))
            else if fst (invoke nb (Malloc BUFFER_SIZE) s1) = NULL
            then Some (Inr (NULL, snd (invoke nb (DfsCloseFile (connection c) handle)
                                         (snd (invoke nb (Malloc BUFFER_SIZE) s1)))))
            else (case reader nb (connection c) handle (fst (invoke nb (Malloc BUFFER_SIZE) s1))
                         (snd (invoke nb (Malloc BUFFER_SIZE) s1)) of
                    None \<Rightarrow> None
                  | Some (last_read, bytes, s3) \<Rightarrow>
                      if last_read = 0
                      then (let s4 = snd (invoke nb (Free (fst (invoke nb (Malloc BUFFER_SIZE) s1))) s3);
                                (ret, s5) = invoke nb (DfsCloseFile (connection c) handle) s4
                            in if ret \<noteq> 0 then Some (Inr (NULL, s5))
                               else Some (Inr (invoke nb
                                      (DfsOpenFile (connection c) path flags bufferSize replication blocksize) s5)))
                      else Some (Inr (NULL, s3))))"
  using assms
  by (auto simp: Tachyon_fileOpen_def case_prod_beta Let_def split: option.splits)

lemma Tachyon_fileOpen_priming:
  assumes "deref pool conn = Inr c"
    and "invoke nb (DfsOpenFile (connection c) path flags bufferSize replication blocksize) s = (handle, s1)"
    and "handle \<noteq> NULL" and "flags \<noteq> O_WRONLY"
    and "invoke nb (Malloc BUFFER_SIZE) s1 = (buffer, s2)" and "buffer \<noteq> NULL"
    and "\<forall>j<k. 0 < fst (nth_read nb (connection c) handle buffer j s2)"
    and "fst (nth_read nb (connection c) handle buffer k s2) \<le> 0"
  shows "Tachyon_fileOpen nb pool conn path flags bufferSize replication blocksize s =
           (if fst (nth_read nb (connection c) handle buffer k s2) = 0
            then (let s4 = snd (invoke nb (Free buffer) (snd (nth_read nb (connection c) handle buffer k s2)));
                      (ret, s5) = invoke nb (DfsCloseFile (connection c) handle) s4
                  in if ret \<noteq> 0 then Some (Inr (NULL, s5))
                     else Some (Inr (invoke nb
                            (DfsOpenFile (connection c) path flags bufferSize replication blocksize) s5)))
            else Some (Inr (NULL, snd (nth_read nb (connection c) handle buffer k s2))))"
proof -
  from reader_returns [OF assms(7,8)] obtain bytes where
    "reader nb (connection c) handle buffer s2 =
       Some (fst (nth_read nb (connection c) handle buffer k s2), bytes,
             snd (nth_read nb (connection c) handle buffer k s2))"
    by blast
  with assms(3-6) show ?thesis
    by (simp add: Tachyon_fileOpen_opened [OF assms(1,2)])
qed

lemma calls_primed:
  assumes "invoke nb (DfsOpenFile c path flags bufferSize replication blocksize) s = (handle, s1)"
    and "invoke nb (Malloc BUFFER_SIZE) s1 = (buffer, s2)"
  shows "calls (snd (nth_read nb c handle buffer k s2)) =
           calls s @ [DfsOpenFile c path flags bufferSize replication blocksize, Malloc BUFFER_SIZE]
             @ replicate (Suc k) (DfsRead c handle buffer BUFFER_SIZE)"
proof -
  from assms(1) have "calls s1 = calls s @ [DfsOpenFile c path flags bufferSize replication blocksize]"
    using calls_invoke [of nb "DfsOpenFile c path flags bufferSize replication blocksize" s] by simp
  moreover from assms(2) have "calls s2 = calls s1 @ [Malloc BUFFER_SIZE]"
    using calls_invoke [of nb "Malloc BUFFER_SIZE" s1] by simp
  ultimately show ?thesis
    by (simp add: calls_nth_read)
qed


lemma invoke_scripted:
  "invoke scripted_native call \<lparr>world = r # rs, calls = cs\<rparr> = (r, \<lparr>world = rs, calls = cs @ [call]\<rparr>)"
  by (simp add: invoke_def scripted_native_def)

lemma deref_leased_pool: "deref leased_pool (Some 0) = Inr \<lparr>connection = 42, state = BUSY_OK\<rparr>"
  by (simp add: deref_def leased_pool_def)

text \<open>
  The path on which everything succeeds: after the base open, the allocation and the reads
  up to the one that returns 0, the buffer is freed, the handle is closed and the result is
  what a second open of the same path with the same arguments returns.
\<close>

lemma Tachyon_fileOpen_read_path:
  assumes "deref pool conn = Inr c"
    and "invoke nb (DfsOpenFile (connection c) path flags bufferSize replication blocksize) s = (handle, s1)"
    and "handle \<noteq> NULL" and "flags \<noteq> O_WRONLY"
    and "invoke nb (Malloc BUFFER_SIZE) s1 = (buffer, s2)" and "buffer \<noteq> NULL"
    and "\<forall>j<k. 0 < fst (nth_read nb (connection c) handle buffer j s2)"
    and "fst (nth_read nb (connection c) handle buffer k s2) = 0"
    and "invoke nb (Free buffer) (snd (nth_read nb (connection c) handle buffer k s2)) = (x, s4)"
    and "invoke nb (DfsCloseFile (connection c) handle) s4 = (0, s5)"
  shows "Tachyon_fileOpen nb pool conn path flags bufferSize replication blocksize s
           = Some (Inr (invoke nb (DfsOpenFile (connection c) path flags bufferSize replication blocksize) s5))"
    and "calls (snd (invoke nb (DfsOpenFile (connection c) path flags bufferSize replication blocksize) s5))
           = calls s @ [DfsOpenFile (connection c) path flags bufferSize replication blocksize,
                        Malloc BUFFER_SIZE]
               @ replicate (Suc k) (DfsRead (connection c) handle buffer BUFFER_SIZE)
               @ [Free buffer, DfsCloseFile (connection c) handle,
                  DfsOpenFile (connection c) path flags bufferSize replication blocksize]"
proof -
  from assms(8) have "fst (nth_read nb (connection c) handle buffer k s2) \<le> 0"
    by simp
  from Tachyon_fileOpen_priming [OF assms(1-7) this] assms(8-10)
  show "Tachyon_fileOpen nb pool conn path flags bufferSize replication blocksize s
           = Some (Inr (invoke nb (DfsOpenFile (connection c) path flags bufferSize replication blocksize) s5))"
    by simp
  from calls_invoke [of nb "Free buffer" "snd (nth_read nb (connection c) handle buffer k s2)"] assms(9)
  have "calls s4 = calls (snd (nth_read nb (connection c) handle buffer k s2)) @ [Free buffer]"
    by simp
  moreover from calls_invoke [of nb "DfsCloseFile (connection c) handle" s4] assms(10)
  have "calls s5 = calls s4 @ [DfsCloseFile (connection c) handle]"
    by simp
  ultimately show "calls (snd (invoke nb (DfsOpenFile (connection c) path flags bufferSize replication blocksize) s5))
           = calls s @ [DfsOpenFile (connection c) path flags bufferSize replication blocksize,
                        Malloc BUFFER_SIZE]
               @ replicate (Suc k) (DfsRead (connection c) handle buffer BUFFER_SIZE)
               @ [Free buffer, DfsCloseFile (connection c) handle,
                  DfsOpenFile (connection c) path flags bufferSize replication blocksize]"
    by (simp add: calls_invoke calls_primed [OF assms(2,5)])
qed

text \<open>
  Claim C3 says that an open for write performs only the base open and never triggers the
  priming read, and the comment at line 279 says the same of the code ("file is opened for
  write, no need to trigger its caching"). The test at line 278 is
  \<^verbatim>\<open>flags == O_WRONLY\<close>, though, which misses every open for write that carries a further
  flag. On an open for append, with flags \<^verbatim>\<open>O_WRONLY | O_APPEND\<close>, the code allocates the
  scratch buffer and calls \<^verbatim>\<open>_dfsRead\<close> on the handle that was opened for write; here that
  read fails, and the caller gets the null handle while the handle stays open. The half of
  the claim about an open for read is the lemma above, which holds for all flags other than
  \<^verbatim>\<open>O_WRONLY\<close>.
\<close>

theorem open_for_append_is_primed:
  "Tachyon_fileOpen scripted_native leased_pool (Some 0) ''/warehouse/t1'' (or O_WRONLY O_APPEND) 0 0 0
     \<lparr>world = [7, 100, - 1], calls = []\<rparr>
   = Some (Inr (NULL,
       \<lparr>world = [],
        calls = [DfsOpenFile 42 ''/warehouse/t1'' 1025 0 0 0, Malloc BUFFER_SIZE,
                 DfsRead 42 7 100 BUFFER_SIZE]\<rparr>))"
  by (simp add: Tachyon_fileOpen_def deref_def leased_pool_def invoke_def scripted_native_def
      reader_def reader_loop.simps NULL_def O_WRONLY_def O_APPEND_def)

text \<open>
  Claim C4. Take a call with a valid lease, flags other than \<^verbatim>\<open>O_WRONLY\<close>, and a base
  open that returns a handle. If the allocation of the scratch buffer fails, the handle is
  closed and the null handle is returned: the calls made are the open, the allocation and
  the close. If the buffer is allocated, \<open>k\<close> reads return data and the next read returns
  a negative value, the null handle is returned and the failing read is the last call made:
  there is one open and no second attempt.
\<close>

theorem priming_failure_returns_null:
  assumes "deref pool conn = Inr c"
    and "invoke nb (DfsOpenFile (connection c) path flags bufferSize replication blocksize) s = (handle, s1)"
    and "handle \<noteq> NULL" and "flags \<noteq> O_WRONLY"
    and "invoke nb (Malloc BUFFER_SIZE) s1 = (buffer, s2)"
  shows "(buffer = NULL \<longrightarrow>
            Tachyon_fileOpen nb pool conn path flags bufferSize replication blocksize s
              = Some (Inr (NULL, snd (invoke nb (DfsCloseFile (connection c) handle) s2)))
            \<and> calls (snd (invoke nb (DfsCloseFile (connection c) handle) s2))
              = calls s @ [DfsOpenFile (connection c) path flags bufferSize replication blocksize,
                           Malloc BUFFER_SIZE, DfsCloseFile (connection c) handle])
         \<and> (buffer \<noteq> NULL \<and> (\<forall>j<k. 0 < fst (nth_read nb (connection c) handle buffer j s2))
              \<and> fst (nth_read nb (connection c) handle buffer k s2) < 0 \<longrightarrow>
            Tachyon_fileOpen nb pool conn path flags bufferSize replication blocksize s
              = Some (Inr (NULL, snd (nth_read nb (connection c) handle buffer k s2)))
            \<and> calls (snd (nth_read nb (connection c) handle buffer k s2))
              = calls s @ [DfsOpenFile (connection c) path flags bufferSize replication blocksize,
                           Malloc BUFFER_SIZE]
                  @ replicate (Suc k) (DfsRead (connection c) handle buffer BUFFER_SIZE))"
proof (intro conjI impI)
  assume "buffer = NULL"
  with assms show "Tachyon_fileOpen nb pool conn path flags bufferSize replication blocksize s
              = Some (Inr (NULL, snd (invoke nb (DfsCloseFile (connection c) handle) s2)))"
    by (simp add: Tachyon_fileOpen_opened [OF assms(1,2)])
next
  assume "buffer = NULL"
  from calls_invoke [of nb "DfsOpenFile (connection c) path flags bufferSize replication blocksize" s]
    calls_invoke [of nb "Malloc BUFFER_SIZE" s1] assms(2,5)
  show "calls (snd (invoke nb (DfsCloseFile (connection c) handle) s2))
              = calls s @ [DfsOpenFile (connection c) path flags bufferSize replication blocksize,
                           Malloc BUFFER_SIZE, DfsCloseFile (connection c) handle]"
    by (simp add: calls_invoke)
next
  assume h: "buffer \<noteq> NULL \<and> (\<forall>j<k. 0 < fst (nth_read nb (connection c) handle buffer j s2))
              \<and> fst (nth_read nb (connection c) handle buffer k s2) < 0"
  then have "fst (nth_read nb (connection c) handle buffer k s2) \<le> 0"
    and "fst (nth_read nb (connection c) handle buffer k s2) \<noteq> 0"
    by simp_all
  with h Tachyon_fileOpen_priming [OF assms(1-5), of k]
  show "Tachyon_fileOpen nb pool conn path flags bufferSize replication blocksize s
              = Some (Inr (NULL, snd (nth_read nb (connection c) handle buffer k s2)))"
    by simp
next
  from assms(2,5)
  show "calls (snd (nth_read nb (connection c) handle buffer k s2))
              = calls s @ [DfsOpenFile (connection c) path flags bufferSize replication blocksize,
                           Malloc BUFFER_SIZE]
                  @ replicate (Suc k) (DfsRead (connection c) handle buffer BUFFER_SIZE)"
    by (rule calls_primed)
qed


theorem priming_failure_returns_null_witness:
  "Tachyon_fileOpen scripted_native leased_pool (Some 0) ''/warehouse/t1'' O_RDONLY 0 0 0
     \<lparr>world = [7, 100, 4096, - 1], calls = []\<rparr>
   = Some (Inr (NULL,
       \<lparr>world = [],
        calls = [DfsOpenFile 42 ''/warehouse/t1'' O_RDONLY 0 0 0, Malloc BUFFER_SIZE,
                 DfsRead 42 7 100 BUFFER_SIZE, DfsRead 42 7 100 BUFFER_SIZE]\<rparr>))
   \<and> Tachyon_fileOpen scripted_native leased_pool (Some 0) ''/warehouse/t1'' O_RDONLY 0 0 0
     \<lparr>world = [7, 0, 0], calls = []\<rparr>
   = Some (Inr (NULL,
       \<lparr>world = [],
        calls = [DfsOpenFile 42 ''/warehouse/t1'' O_RDONLY 0 0 0, Malloc BUFFER_SIZE,
                 DfsCloseFile 42 7]\<rparr>))"
proof -
  let ?c = "\<lparr>connection = 42, state = BUSY_OK\<rparr>"
  let ?open = "DfsOpenFile (connection ?c) ''/warehouse/t1'' O_RDONLY 0 0 0"
  have f: "7 \<noteq> NULL" "O_RDONLY \<noteq> O_WRONLY"
    by (simp_all add: NULL_def O_RDONLY_def O_WRONLY_def)
  have o1: "invoke scripted_native ?open \<lparr>world = [7, 100, 4096, - 1], calls = []\<rparr>
      = (7, \<lparr>world = [100, 4096, - 1], calls = [?open]\<rparr>)"
    by (simp add: invoke_scripted)
  have m1: "invoke scripted_native (Malloc BUFFER_SIZE) \<lparr>world = [100, 4096, - 1], calls = [?open]\<rparr>
      = (100, \<lparr>world = [4096, - 1], calls = [?open, Malloc BUFFER_SIZE]\<rparr>)"
    by (simp add: invoke_scripted)
  have r1: "100 \<noteq> NULL
      \<and> (\<forall>j<1. 0 < fst (nth_read scripted_native (connection ?c) 7 100 j
                           \<lparr>world = [4096, - 1], calls = [?open, Malloc BUFFER_SIZE]\<rparr>))
      \<and> fst (nth_read scripted_native (connection ?c) 7 100 1
                \<lparr>world = [4096, - 1], calls = [?open, Malloc BUFFER_SIZE]\<rparr>) < 0"
    by (simp add: invoke_scripted NULL_def)
  have o2: "invoke scripted_native ?open \<lparr>world = [7, 0, 0], calls = []\<rparr>
      = (7, \<lparr>world = [0, 0], calls = [?open]\<rparr>)"
    by (simp add: invoke_scripted)
  have m2: "invoke scripted_native (Malloc BUFFER_SIZE) \<lparr>world = [0, 0], calls = [?open]\<rparr>
      = (0, \<lparr>world = [0], calls = [?open, Malloc BUFFER_SIZE]\<rparr>)"
    by (simp add: invoke_scripted)
  from priming_failure_returns_null [OF deref_leased_pool o1 f m1, of 1] r1
  have "Tachyon_fileOpen scripted_native leased_pool (Some 0) ''/warehouse/t1'' O_RDONLY 0 0 0
     \<lparr>world = [7, 100, 4096, - 1], calls = []\<rparr>
     = Some (Inr (NULL, snd (nth_read scripted_native (connection ?c) 7 100 1
                \<lparr>world = [4096, - 1], calls = [?open, Malloc BUFFER_SIZE]\<rparr>)))"
    by blast
  moreover
  from priming_failure_returns_null [OF deref_leased_pool o2 f m2, of 0]
  have "Tachyon_fileOpen scripted_native leased_pool (Some 0) ''/warehouse/t1'' O_RDONLY 0 0 0
     \<lparr>world = [7, 0, 0], calls = []\<rparr>
     = Some (Inr (NULL, snd (invoke scripted_native (DfsCloseFile (connection ?c) 7)
                \<lparr>world = [0], calls = [?open, Malloc BUFFER_SIZE]\<rparr>)))"
    by (simp add: NULL_def)
  ultimately show ?thesis
    by (simp add: invoke_scripted)
qed






text \<open>
  Claim C10. In the setting of claim C4: when a read of the priming run returns \<open>-1\<close>, the
  null handle is returned and no \<^verbatim>\<open>_dfsCloseFile\<close> call is among the calls made, so the
  handle that was opened stays open; when the allocation fails, the calls made are the
  open, the allocation and the close of that handle.
\<close>

theorem priming_failure_leaves_handle_open:
  assumes "deref pool conn = Inr c"
    and "invoke nb (DfsOpenFile (connection c) path flags bufferSize replication blocksize) s = (handle, s1)"
    and "handle \<noteq> NULL" and "flags \<noteq> O_WRONLY"
    and "invoke nb (Malloc BUFFER_SIZE) s1 = (buffer, s2)"
  shows "(buffer \<noteq> NULL \<and> (\<forall>j<k. 0 < fst (nth_read nb (connection c) handle buffer j s2))
              \<and> fst (nth_read nb (connection c) handle buffer k s2) = - 1 \<longrightarrow>
            (\<exists>s'. Tachyon_fileOpen nb pool conn path flags bufferSize replication blocksize s
                     = Some (Inr (NULL, s'))
                 \<and> (\<forall>args. Call ''_dfsCloseFile'' args \<notin> set (drop (length (calls s)) (calls s')))))
         \<and> (buffer = NULL \<longrightarrow>
            (\<exists>s'. Tachyon_fileOpen nb pool conn path flags bufferSize replication blocksize s
                     = Some (Inr (NULL, s'))
                 \<and> drop (length (calls s)) (calls s')
                   = [DfsOpenFile (connection c) path flags bufferSize replication blocksize,
                      Malloc BUFFER_SIZE, DfsCloseFile (connection c) handle]))"
proof (intro conjI impI)
  assume h: "buffer \<noteq> NULL \<and> (\<forall>j<k. 0 < fst (nth_read nb (connection c) handle buffer j s2))
              \<and> fst (nth_read nb (connection c) handle buffer k s2) = - 1"
  let ?s3 = "snd (nth_read nb (connection c) handle buffer k s2)"
  from h have "fst (nth_read nb (connection c) handle buffer k s2) \<le> 0"
    by simp
  with h Tachyon_fileOpen_priming [OF assms(1-5), of k]
  have r: "Tachyon_fileOpen nb pool conn path flags bufferSize replication blocksize s = Some (Inr (NULL, ?s3))"
    by simp
  have "drop (length (calls s)) (calls ?s3)
      = [DfsOpenFile (connection c) path flags bufferSize replication blocksize, Malloc BUFFER_SIZE]
          @ replicate (Suc k) (DfsRead (connection c) handle buffer BUFFER_SIZE)"
    by (simp add: calls_primed [OF assms(2,5)])
  then have "\<forall>args. Call ''_dfsCloseFile'' args \<notin> set (drop (length (calls s)) (calls ?s3))"
    by auto
  with r show "\<exists>s'. Tachyon_fileOpen nb pool conn path flags bufferSize replication blocksize s
                     = Some (Inr (NULL, s'))
                 \<and> (\<forall>args. Call ''_dfsCloseFile'' args \<notin> set (drop (length (calls s)) (calls s')))"
    by blast
next
  assume n: "buffer = NULL"
  let ?s3 = "snd (invoke nb (DfsCloseFile (connection c) handle) s2)"
  from n assms have r: "Tachyon_fileOpen nb pool conn path flags bufferSize replication blocksize s
              = Some (Inr (NULL, ?s3))"
    by (simp add: Tachyon_fileOpen_opened [OF assms(1,2)])
  from calls_invoke [of nb "DfsOpenFile (connection c) path flags bufferSize replication blocksize" s]
    calls_invoke [of nb "Malloc BUFFER_SIZE" s1] assms(2,5)
  have "drop (length (calls s)) (calls ?s3)
      = [DfsOpenFile (connection c) path flags bufferSize replication blocksize,
         Malloc BUFFER_SIZE, DfsCloseFile (connection c) handle]"
    by (simp add: calls_invoke)
  with r show "\<exists>s'. Tachyon_fileOpen nb pool conn path flags bufferSize replication blocksize s
                     = Some (Inr (NULL, s'))
                 \<and> drop (length (calls s)) (calls s')
                   = [DfsOpenFile (connection c) path flags bufferSize replication blocksize,
                      Malloc BUFFER_SIZE, DfsCloseFile (connection c) handle]"
    by blast
qed



theorem priming_failure_leaves_handle_open_witness:
  "(\<exists>s'. Tachyon_fileOpen scripted_native leased_pool (Some 0) ''/warehouse/t1'' O_RDONLY 0 0 0
            \<lparr>world = [7, 100, 4096, - 1], calls = []\<rparr> = Some (Inr (NULL, s'))
         \<and> DfsCloseFile 42 7 \<notin> set (calls s'))
   \<and> (\<exists>s'. Tachyon_fileOpen scripted_native leased_pool (Some 0) ''/warehouse/t1'' O_RDONLY 0 0 0
            \<lparr>world = [7, 0, 0], calls = []\<rparr> = Some (Inr (NULL, s'))
         \<and> calls s' = [DfsOpenFile 42 ''/warehouse/t1'' O_RDONLY 0 0 0, Malloc BUFFER_SIZE,
                        DfsCloseFile 42 7])"
proof -
  let ?c = "\<lparr>connection = 42, state = BUSY_OK\<rparr>"
  let ?open = "DfsOpenFile (connection ?c) ''/warehouse/t1'' O_RDONLY 0 0 0"
  have f: "7 \<noteq> NULL" "O_RDONLY \<noteq> O_WRONLY"
    by (simp_all add: NULL_def O_RDONLY_def O_WRONLY_def)
  have o1: "invoke scripted_native ?open \<lparr>world = [7, 100, 4096, - 1], calls = []\<rparr>
      = (7, \<lparr>world = [100, 4096, - 1], calls = [?open]\<rparr>)"
    by (simp add: invoke_scripted)
  have m1: "invoke scripted_native (Malloc BUFFER_SIZE) \<lparr>world = [100, 4096, - 1], calls = [?open]\<rparr>
      = (100, \<lparr>world = [4096, - 1], calls = [?open, Malloc BUFFER_SIZE]\<rparr>)"
    by (simp add: invoke_scripted)
  have r1: "100 \<noteq> NULL
      \<and> (\<forall>j<1. 0 < fst (nth_read scripted_native (connection ?c) 7 100 j
                           \<lparr>world = [4096, - 1], calls = [?open, Malloc BUFFER_SIZE]\<rparr>))
      \<and> fst (nth_read scripted_native (connection ?c) 7 100 1
                \<lparr>world = [4096, - 1], calls = [?open, Malloc BUFFER_SIZE]\<rparr>) = - 1"
    by (simp add: invoke_scripted NULL_def)
  have o2: "invoke scripted_native ?open \<lparr>world = [7, 0, 0], calls = []\<rparr>
      = (7, \<lparr>world = [0, 0], calls = [?open]\<rparr>)"
    by (simp add: invoke_scripted)
  have m2: "invoke scripted_native (Malloc BUFFER_SIZE) \<lparr>world = [0, 0], calls = [?open]\<rparr>
      = (0, \<lparr>world = [0], calls = [?open, Malloc BUFFER_SIZE]\<rparr>)"
    by (simp add: invoke_scripted)
  have "\<exists>s'. Tachyon_fileOpen scripted_native leased_pool (Some 0) ''/warehouse/t1'' O_RDONLY 0 0 0
            \<lparr>world = [7, 100, 4096, - 1], calls = []\<rparr> = Some (Inr (NULL, s'))
         \<and> (\<forall>args. Call ''_dfsCloseFile'' args
              \<notin> set (drop (length (calls (\<lparr>world = [7, 100, 4096, - 1], calls = []\<rparr> :: int list sys))) (calls s')))"
    by (rule mp [OF conjunct1 [OF priming_failure_leaves_handle_open [OF deref_leased_pool o1 f m1, of 1]] r1])
  then obtain s' where s': "Tachyon_fileOpen scripted_native leased_pool (Some 0) ''/warehouse/t1'' O_RDONLY 0 0 0
            \<lparr>world = [7, 100, 4096, - 1], calls = []\<rparr> = Some (Inr (NULL, s'))"
    and n: "\<forall>args. Call ''_dfsCloseFile'' args
              \<notin> set (drop (length (calls (\<lparr>world = [7, 100, 4096, - 1], calls = []\<rparr> :: int list sys))) (calls s'))"
    by (elim exE conjE)
  from n have "Call ''_dfsCloseFile'' [P 42, P 7] \<notin> set (calls s')"
    by simp
  with s' have a: "\<exists>s'. Tachyon_fileOpen scripted_native leased_pool (Some 0) ''/warehouse/t1'' O_RDONLY 0 0 0
            \<lparr>world = [7, 100, 4096, - 1], calls = []\<rparr> = Some (Inr (NULL, s'))
         \<and> DfsCloseFile 42 7 \<notin> set (calls s')"
    by blast
  have m0: "0 = NULL"
    by (simp add: NULL_def)
  have "\<exists>s'. Tachyon_fileOpen scripted_native leased_pool (Some 0) ''/warehouse/t1'' O_RDONLY 0 0 0
            \<lparr>world = [7, 0, 0], calls = []\<rparr> = Some (Inr (NULL, s'))
         \<and> drop (length (calls (\<lparr>world = [7, 0, 0], calls = []\<rparr> :: int list sys))) (calls s')
              = [?open, Malloc BUFFER_SIZE, DfsCloseFile (connection ?c) 7]"
    by (rule mp [OF conjunct2 [OF priming_failure_leaves_handle_open [OF deref_leased_pool o2 f m2, of 0]] m0])
  then have b: "\<exists>s'. Tachyon_fileOpen scripted_native leased_pool (Some 0) ''/warehouse/t1'' O_RDONLY 0 0 0
            \<lparr>world = [7, 0, 0], calls = []\<rparr> = Some (Inr (NULL, s'))
         \<and> calls s' = [DfsOpenFile 42 ''/warehouse/t1'' O_RDONLY 0 0 0, Malloc BUFFER_SIZE,
                        DfsCloseFile 42 7]"
    by simp
  from a b show ?thesis ..
qed


section \<open>Properties of the registry\<close>

text \<open>What the insertion part of \<^verbatim>\<open>setupFileSystem\<close> does to the adaptor directory.\<close>

lemma registerAdaptor_present:
  assumes "getFileSystemDescriptor reg d = Some p"
  shows "registerAdaptor reg d = (OK, reg)"
proof -
  from assms obtain inner where i: "m_filesystems reg (dfs_type d) = Some inner"
    and h: "inner (host d) = Some p"
    by (auto simp: getFileSystemDescriptor_def split: option.splits)
  from i have "(m_filesystems reg)(dfs_type d \<mapsto> inner) = m_filesystems reg"
    by (rule map_upd_triv)
  with i h show ?thesis
    by (simp add: registerAdaptor_def)
qed

lemma registerAdaptor_absent:
  assumes "getFileSystemDescriptor reg d = None"
  shows "\<exists>inner. registerAdaptor reg d =
           (OK, reg\<lparr>adaptors := adaptors reg @
                        [\<lparr>kind = (if dfs_type d = tachyon then Tachyon else Base),
                          m_fsDescriptor = d, m_connections = [], m_mux = False\<rparr>],
                     m_filesystems := (m_filesystems reg)
                        (dfs_type d \<mapsto> inner(host d \<mapsto> length (adaptors reg)))\<rparr>)
         \<and> inner = (case m_filesystems reg (dfs_type d) of None \<Rightarrow> Map.empty | Some m \<Rightarrow> m)"
  using assms
  by (auto simp: registerAdaptor_def getFileSystemDescriptor_def Let_def split: option.splits)

lemma getFileSystemDescriptor_registerAdaptor:
  "getFileSystemDescriptor (snd (registerAdaptor reg d)) d' =
     (if dfs_type d' = dfs_type d \<and> host d' = host d
      then (case getFileSystemDescriptor reg d of None \<Rightarrow> Some (length (adaptors reg)) | Some p \<Rightarrow> Some p)
      else getFileSystemDescriptor reg d')"
  by (auto simp: registerAdaptor_def getFileSystemDescriptor_def Let_def split: option.splits)

lemma setupFileSystem_concrete:
  "host d \<noteq> DEFAULT_FS \<Longrightarrow>
     setupFileSystem nb DEFAULT_FS reg d s = (fst (registerAdaptor reg d), d, snd (registerAdaptor reg d), s)"
  by (simp add: setupFileSystem_def split: prod.splits)


lemma fst_registerAdaptor: "fst (registerAdaptor reg d) = OK"
  by (simp add: registerAdaptor_def Let_def)

lemma setupFileSystem_times_registered:
  assumes "host d \<noteq> DEFAULT_FS" and "getFileSystemDescriptor reg d = Some p"
  shows "setupFileSystem_times n nb DEFAULT_FS reg d s = (replicate n OK, d, reg, s)"
  using assms
  by (induction n) (simp_all add: setupFileSystem_concrete registerAdaptor_present)

text \<open>
  Claim C5. For a descriptor whose host is not the resolution sentinel, any number
  \<open>n + 1\<close> of calls of \<^verbatim>\<open>setupFileSystem\<close> in a row return \<open>OK\<close> each and leave the
  registry that the first call leaves; the descriptor and the system are not touched. When
  no adaptor was registered for (type, host), the first call allocates exactly one adaptor
  object, of the Tachyon kind exactly when the type is \<open>tachyon\<close>, holding the descriptor and
  an empty pool, and \<^verbatim>\<open>getFileSystemDescriptor\<close> finds this object from then on; when one
  was registered the registry does not change at all. The entries of all other (type, host)
  pairs are as before.
\<close>

theorem setupFileSystem_singleton:
  assumes "host d \<noteq> DEFAULT_FS"
  shows "setupFileSystem_times (Suc n) nb DEFAULT_FS reg d s
           = (replicate (Suc n) OK, d, snd (registerAdaptor reg d), s)
         \<and> setupFileSystem nb DEFAULT_FS reg d s = (OK, d, snd (registerAdaptor reg d), s)
         \<and> (case getFileSystemDescriptor reg d of
               None \<Rightarrow>
                 adaptors (snd (registerAdaptor reg d)) = adaptors reg @
                   [\<lparr>kind = (if dfs_type d = tachyon then Tachyon else Base),
                     m_fsDescriptor = d, m_connections = [], m_mux = False\<rparr>]
                 \<and> getFileSystemDescriptor (snd (registerAdaptor reg d)) d = Some (length (adaptors reg))
             | Some p \<Rightarrow>
                 snd (registerAdaptor reg d) = reg)
         \<and> (\<forall>d'. dfs_type d' \<noteq> dfs_type d \<or> host d' \<noteq> host d \<longrightarrow>
               getFileSystemDescriptor (snd (registerAdaptor reg d)) d' = getFileSystemDescriptor reg d')"
proof -
  let ?reg1 = "snd (registerAdaptor reg d)"
  have one: "setupFileSystem nb DEFAULT_FS reg d s = (OK, d, ?reg1, s)"
    using assms by (simp add: setupFileSystem_concrete fst_registerAdaptor)
  have "\<exists>p. getFileSystemDescriptor ?reg1 d = Some p"
    by (simp add: getFileSystemDescriptor_registerAdaptor split: option.splits)
  then obtain p where "getFileSystemDescriptor ?reg1 d = Some p" ..
  with assms have "setupFileSystem_times n nb DEFAULT_FS ?reg1 d s = (replicate n OK, d, ?reg1, s)"
    by (rule setupFileSystem_times_registered)
  with one have many: "setupFileSystem_times (Suc n) nb DEFAULT_FS reg d s
      = (replicate (Suc n) OK, d, ?reg1, s)"
    by simp
  have cases: "(case getFileSystemDescriptor reg d of
               None \<Rightarrow>
                 adaptors ?reg1 = adaptors reg @
                   [\<lparr>kind = (if dfs_type d = tachyon then Tachyon else Base),
                     m_fsDescriptor = d, m_connections = [], m_mux = False\<rparr>]
                 \<and> getFileSystemDescriptor ?reg1 d = Some (length (adaptors reg))
             | Some p \<Rightarrow> ?reg1 = reg)"
  proof (cases "getFileSystemDescriptor reg d")
    case None
    from registerAdaptor_absent [OF None] obtain inner where
      "registerAdaptor reg d =
           (OK, reg\<lparr>adaptors := adaptors reg @
                        [\<lparr>kind = (if dfs_type d = tachyon then Tachyon else Base),
                          m_fsDescriptor = d, m_connections = [], m_mux = False\<rparr>],
                     m_filesystems := (m_filesystems reg)
                        (dfs_type d \<mapsto> inner(host d \<mapsto> length (adaptors reg)))\<rparr>)"
      by blast
    then have "adaptors ?reg1 = adaptors reg @
                   [\<lparr>kind = (if dfs_type d = tachyon then Tachyon else Base),
                     m_fsDescriptor = d, m_connections = [], m_mux = False\<rparr>]"
      by simp
    with None show ?thesis
      by (simp add: getFileSystemDescriptor_registerAdaptor)
  next
    case (Some p)
    then show ?thesis
      by (simp add: registerAdaptor_present)
  qed
  have others: "\<forall>d'. dfs_type d' \<noteq> dfs_type d \<or> host d' \<noteq> host d \<longrightarrow>
               getFileSystemDescriptor ?reg1 d' = getFileSystemDescriptor reg d'"
    by (auto simp: getFileSystemDescriptor_registerAdaptor)
  from many one cases others show ?thesis
    by blast
qed


theorem setupFileSystem_singleton_witness:
  "host tachyon_nn1 \<noteq> ''default''
   \<and> setupFileSystem_times (Suc 1) scripted_native ''default'' empty_registry tachyon_nn1 \<lparr>world = [], calls = []\<rparr>
       = ([OK, OK], tachyon_nn1, snd (registerAdaptor empty_registry tachyon_nn1), \<lparr>world = [], calls = []\<rparr>)
   \<and> adaptors (snd (registerAdaptor empty_registry tachyon_nn1))
       = [\<lparr>kind = Tachyon, m_fsDescriptor = tachyon_nn1, m_connections = [], m_mux = False\<rparr>]
   \<and> getFileSystemDescriptor (snd (registerAdaptor empty_registry tachyon_nn1)) tachyon_nn1 = Some 0"
proof -
  have h: "host tachyon_nn1 \<noteq> ''default''"
    by (simp add: tachyon_nn1_def)
  have n: "getFileSystemDescriptor empty_registry tachyon_nn1 = None"
    by (simp add: getFileSystemDescriptor_def empty_registry_def)
  have e: "adaptors empty_registry = []" "dfs_type tachyon_nn1 = tachyon"
    by (simp_all add: empty_registry_def tachyon_nn1_def)
  from setupFileSystem_singleton [OF h, of 1 scripted_native empty_registry "\<lparr>world = [], calls = []\<rparr>"]
  show ?thesis
    using h by (simp add: n e del: setupFileSystem_times.simps)
qed

text \<open>
  Claim C7, as stated, does not hold: nothing in \<^verbatim>\<open>resolveFsAddress\<close> or
  \<^verbatim>\<open>setupFileSystem\<close> looks at what the resolver reports. When the resolver returns
  status 0 with the host name \<open>default\<close> and leaves the type as it found it, the call
  returns \<open>OK\<close> with the descriptor still on the sentinel host and on the type
  \<open>DEFAULT_FROM_CONFIG\<close>, and an adaptor is registered under this pair.
\<close>

theorem resolved_host_can_be_the_sentinel:
  "setupFileSystem unresolving_native ''default'' empty_registry default_descriptor
     \<lparr>world = (), calls = []\<rparr>
   = (OK, default_descriptor, snd (registerAdaptor empty_registry default_descriptor),
      \<lparr>world = (),
       calls = [Call ''_dfsGetDefaultFsHostPortType'' [Bld [SetHost (Some ''default''), SetPort 0]]]\<rparr>)
   \<and> host default_descriptor = ''default''
   \<and> dfs_type default_descriptor = DEFAULT_FROM_CONFIG
   \<and> getFileSystemDescriptor (snd (registerAdaptor empty_registry default_descriptor)) default_descriptor
       = Some 0"
proof -
  have h: "host default_descriptor = ''default''" "dfs_type default_descriptor = DEFAULT_FROM_CONFIG"
    by (simp_all add: default_descriptor_def)
  have r: "resolveFsAddress unresolving_native default_descriptor \<lparr>world = (), calls = []\<rparr>
      = (0, default_descriptor,
         \<lparr>world = (),
          calls = [Call ''_dfsGetDefaultFsHostPortType'' [Bld [SetHost (Some ''default''), SetPort 0]]]\<rparr>)"
    by (simp add: resolveFsAddress_def unresolving_native_def default_descriptor_def)
  have c: "setupFileSystem unresolving_native ''default'' empty_registry default_descriptor
        \<lparr>world = (), calls = []\<rparr>
      = (fst (registerAdaptor empty_registry default_descriptor), default_descriptor,
         snd (registerAdaptor empty_registry default_descriptor),
         \<lparr>world = (),
          calls = [Call ''_dfsGetDefaultFsHostPortType'' [Bld [SetHost (Some ''default''), SetPort 0]]]\<rparr>)"
    by (simp add: setupFileSystem_def h r case_prod_beta)
  have "getFileSystemDescriptor empty_registry default_descriptor = None"
    by (simp add: getFileSystemDescriptor_def empty_registry_def)
  then have g: "getFileSystemDescriptor (snd (registerAdaptor empty_registry default_descriptor))
      default_descriptor = Some 0"
    by (simp add: getFileSystemDescriptor_registerAdaptor empty_registry_def)
  from c h g show ?thesis
    by (simp add: fst_registerAdaptor)
qed

text \<open>
  Claim C7, amended. For a descriptor whose host is the resolution sentinel,
  \<^verbatim>\<open>setupFileSystem\<close> makes the one resolver call first. When the resolver's status is
  not zero the result is \<open>DFS_ADAPTOR_IS_NOT_CONFIGURED\<close> and the registry is unchanged.
  When it is zero the result is \<open>OK\<close>, the descriptor now holds the host and the type
  that the resolver reported, whatever they are, and the reported port, or 0 when that is
  negative, and the adaptor directory is the one that the insertion yields for this
  resolved descriptor, so it has an adaptor under the reported (type, host).
\<close>

theorem setupFileSystem_resolution:
  assumes "host d = DEFAULT_FS"
    and "dfsGetDefaultFsHostPortType nb
           ((if host d \<noteq> [] then [SetHost (Some (host d))] else [SetHost None]) @ [SetPort (port d)])
           (port d) (dfs_type d) (world s) = ((status, h, p, t), w')"
  shows "calls (snd (snd (snd (setupFileSystem nb DEFAULT_FS reg d s)))) =
           calls s @ [Call ''_dfsGetDefaultFsHostPortType''
             [Bld ((if host d \<noteq> [] then [SetHost (Some (host d))] else [SetHost None]) @ [SetPort (port d)])]]
         \<and> (status \<noteq> 0 \<longrightarrow>
               fst (setupFileSystem nb DEFAULT_FS reg d s) = DFS_ADAPTOR_IS_NOT_CONFIGURED
               \<and> fst (snd (snd (setupFileSystem nb DEFAULT_FS reg d s))) = reg)
         \<and> (status = 0 \<longrightarrow>
               fst (setupFileSystem nb DEFAULT_FS reg d s) = OK
               \<and> fst (snd (setupFileSystem nb DEFAULT_FS reg d s))
                    = d\<lparr>dfs_type := t, host := h, port := (if p < 0 then 0 else p)\<rparr>
               \<and> 0 \<le> port (fst (snd (setupFileSystem nb DEFAULT_FS reg d s)))
               \<and> fst (snd (snd (setupFileSystem nb DEFAULT_FS reg d s)))
                    = snd (registerAdaptor reg (d\<lparr>dfs_type := t, host := h, port := (if p < 0 then 0 else p)\<rparr>))
               \<and> getFileSystemDescriptor (fst (snd (snd (setupFileSystem nb DEFAULT_FS reg d s))))
                    (d\<lparr>dfs_type := t, host := h, port := (if p < 0 then 0 else p)\<rparr>) \<noteq> None)"
proof -
  let ?b = "(if host d \<noteq> [] then [SetHost (Some (host d))] else [SetHost None]) @ [SetPort (port d)]"
  let ?s' = "\<lparr>world = w', calls = calls s @ [Call ''_dfsGetDefaultFsHostPortType'' [Bld ?b]]\<rparr>"
  let ?d' = "d\<lparr>dfs_type := t, host := h, port := (if p < 0 then 0 else p)\<rparr>"
  have r: "resolveFsAddress nb d s =
      (status, (if status = 0 then ?d' else d\<lparr>port := p, dfs_type := t\<rparr>), ?s')"
    using assms(2) by (simp add: resolveFsAddress_def Let_def)
  have g: "getFileSystemDescriptor (snd (registerAdaptor reg ?d')) ?d' \<noteq> None"
    by (simp add: getFileSystemDescriptor_registerAdaptor split: option.splits)
  show ?thesis
  proof (cases "status = 0")
    case True
    with assms(1) r have "setupFileSystem nb DEFAULT_FS reg d s
        = (fst (registerAdaptor reg ?d'), ?d', snd (registerAdaptor reg ?d'), ?s')"
      by (simp add: setupFileSystem_def split: prod.splits)
    with True g show ?thesis
      by (simp add: fst_registerAdaptor)
  next
    case False
    with assms(1) r have "setupFileSystem nb DEFAULT_FS reg d s
        = (DFS_ADAPTOR_IS_NOT_CONFIGURED, d\<lparr>port := p, dfs_type := t\<rparr>, reg, ?s')"
      by (simp add: setupFileSystem_def)
    with False show ?thesis
      by simp
  qed
qed


theorem setupFileSystem_resolution_witness:
  "fst (setupFileSystem scripted_native ''default'' empty_registry default_descriptor
          \<lparr>world = [0, - 5], calls = []\<rparr>) = OK
   \<and> fst (snd (setupFileSystem scripted_native ''default'' empty_registry default_descriptor
          \<lparr>world = [0, - 5], calls = []\<rparr>))
       = default_descriptor\<lparr>dfs_type := hdfs, host := ''namenode'', port := 0\<rparr>
   \<and> fst (setupFileSystem scripted_native ''default'' empty_registry default_descriptor
          \<lparr>world = [1, 8020], calls = []\<rparr>) = DFS_ADAPTOR_IS_NOT_CONFIGURED
   \<and> fst (snd (snd (setupFileSystem scripted_native ''default'' empty_registry default_descriptor
          \<lparr>world = [1, 8020], calls = []\<rparr>))) = empty_registry"
proof -
  have a1: "host default_descriptor = ''default''"
    by (simp add: default_descriptor_def)
  have a2: "dfsGetDefaultFsHostPortType scripted_native
           ((if host default_descriptor \<noteq> [] then [SetHost (Some (host default_descriptor))]
             else [SetHost None]) @ [SetPort (port default_descriptor)])
           (port default_descriptor) (dfs_type default_descriptor)
           (world \<lparr>world = [0, - 5], calls = []\<rparr>) = ((0, ''namenode'', - 5, hdfs), [])"
    by (simp add: scripted_native_def)
  have a3: "dfsGetDefaultFsHostPortType scripted_native
           ((if host default_descriptor \<noteq> [] then [SetHost (Some (host default_descriptor))]
             else [SetHost None]) @ [SetPort (port default_descriptor)])
           (port default_descriptor) (dfs_type default_descriptor)
           (world \<lparr>world = [1, 8020], calls = []\<rparr>) = ((1, ''namenode'', 8020, hdfs), [])"
    by (simp add: scripted_native_def)
  from setupFileSystem_resolution [OF a1 a2, of empty_registry]
    setupFileSystem_resolution [OF a1 a3, of empty_registry]
  show ?thesis
    by simp
qed

text \<open>
  Claim C6. For a local key \<open>L\<close> without a pairing,
  \<^verbatim>\<open>registerCreateFromSelectScenario(L, R1)\<close> returns true and adds the pairing and nothing
  else; a following \<^verbatim>\<open>registerCreateFromSelectScenario(L, R2)\<close> returns false and leaves the
  registry as it is, so that \<open>L\<close> is still paired with \<open>R1\<close>. On any registry,
  \<^verbatim>\<open>unregisterCreateFromSelectScenario(L)\<close> returns true exactly when \<open>L\<close> had a pairing, the
  registry afterwards differs only in that \<open>L\<close> has none, and
  \<^verbatim>\<open>getCreateFromSelectScenario(L)\<close> then returns the null handle with \<^verbatim>\<open>exists = false\<close>.
\<close>

theorem createFromSelect_pairing:
  "(m_createFromSelect reg L = None \<longrightarrow>
      registerCreateFromSelectScenario reg L R1
        = (True, reg\<lparr>m_createFromSelect := (m_createFromSelect reg)(L \<mapsto> R1)\<rparr>)
      \<and> registerCreateFromSelectScenario (snd (registerCreateFromSelectScenario reg L R1)) L R2
        = (False, snd (registerCreateFromSelectScenario reg L R1))
      \<and> getCreateFromSelectScenario (snd (registerCreateFromSelectScenario reg L R1)) L = (R1, True))
   \<and> fst (unregisterCreateFromSelectScenario reg L) = (m_createFromSelect reg L \<noteq> None)
   \<and> snd (unregisterCreateFromSelectScenario reg L)
        = reg\<lparr>m_createFromSelect := (m_createFromSelect reg)(L := None)\<rparr>
   \<and> getCreateFromSelectScenario (snd (unregisterCreateFromSelectScenario reg L)) L = (NULL, False)"
  by (simp add: registerCreateFromSelectScenario_def unregisterCreateFromSelectScenario_def
      getCreateFromSelectScenario_def)

theorem createFromSelect_pairing_witness:
  "m_createFromSelect empty_registry 5 = None
   \<and> registerCreateFromSelectScenario empty_registry 5 6
        = (True, empty_registry\<lparr>m_createFromSelect := (m_createFromSelect empty_registry)(5 \<mapsto> 6)\<rparr>)
   \<and> registerCreateFromSelectScenario (snd (registerCreateFromSelectScenario empty_registry 5 6)) 5 7
        = (False, snd (registerCreateFromSelectScenario empty_registry 5 6))
   \<and> getCreateFromSelectScenario (snd (registerCreateFromSelectScenario empty_registry 5 6)) 5 = (6, True)"
proof -
  have h: "m_createFromSelect empty_registry 5 = None"
    by (simp add: empty_registry_def)
  from createFromSelect_pairing [of empty_registry 5 6 7] h show ?thesis
    by blast
qed

end
